theory Spec2Isabelle
  imports Complex_Main
begin

section \<open>Python string primitives\<close>

text \<open>
  Texts are modelled as \<open>string\<close> (lists of 8-bit characters) with the ASCII reading of
  Python's \<open>str\<close> methods: letters are \<open>A-Z\<close> and \<open>a-z\<close>, digits are \<open>0-9\<close>, and
  whitespace is what \<open>str.isspace\<close> accepts below code point 128.  Characters above 127
  are treated as caseless symbols.  Python floats are idealised as \<open>real\<close>; the example
  inputs below are chosen so that no comparison in them hinges on rounding.
\<close>

definition isupper_c :: "char \<Rightarrow> bool" where
  "isupper_c c = (let n = (of_char c :: nat) in 65 \<le> n \<and> n \<le> 90)"

definition islower_c :: "char \<Rightarrow> bool" where
  "islower_c c = (let n = (of_char c :: nat) in 97 \<le> n \<and> n \<le> 122)"

definition isalpha_c :: "char \<Rightarrow> bool" where
  "isalpha_c c = (isupper_c c \<or> islower_c c)"

definition isdigit_c :: "char \<Rightarrow> bool" where
  "isdigit_c c = (let n = (of_char c :: nat) in 48 \<le> n \<and> n \<le> 57)"

definition isspace_c :: "char \<Rightarrow> bool" where
  "isspace_c c = (let n = (of_char c :: nat) in (9 \<le> n \<and> n \<le> 13) \<or> (28 \<le> n \<and> n \<le> 32))"

text \<open>Upper and lower case differ in bit 5 of the ASCII code.\<close>

definition lower_c :: "char \<Rightarrow> char" where
  "lower_c c = (if isupper_c c
     then (case c of Char b0 b1 b2 b3 b4 b5 b6 b7 \<Rightarrow> Char b0 b1 b2 b3 b4 True b6 b7) else c)"

definition upper_c :: "char \<Rightarrow> char" where
  "upper_c c = (if islower_c c
     then (case c of Char b0 b1 b2 b3 b4 b5 b6 b7 \<Rightarrow> Char b0 b1 b2 b3 b4 False b6 b7) else c)"

definition lower :: "string \<Rightarrow> string" where
  "lower s = map lower_c s"

definition upper :: "string \<Rightarrow> string" where
  "upper s = map upper_c s"

text \<open>\<open>str.isupper()\<close>: at least one cased character and no lowercase one.\<close>

definition isupper :: "string \<Rightarrow> bool" where
  "isupper s = (list_ex isupper_c s \<and> list_all (\<lambda>c. \<not> islower_c c) s)"

definition strip :: "string \<Rightarrow> string" where
  "strip s = rev (dropWhile isspace_c (rev (dropWhile isspace_c s)))"

text \<open>\<open>str.split()\<close> without arguments: the maximal runs of non-whitespace characters.
  The first argument is the token being read.\<close>

fun split_acc :: "string \<Rightarrow> string \<Rightarrow> string list" where
  "split_acc w [] = (if w = [] then [] else [w])"
| "split_acc w (c # cs) =
     (if isspace_c c then (if w = [] then split_acc [] cs else w # split_acc [] cs)
      else split_acc (w @ [c]) cs)"

definition split :: "string \<Rightarrow> string list" where
  "split s = split_acc [] s"

fun startswith :: "string \<Rightarrow> string \<Rightarrow> bool" where
  "startswith s [] = True"
| "startswith [] (p # ps) = False"
| "startswith (c # cs) (p # ps) = (c = p \<and> startswith cs ps)"

text \<open>\<open>sub in s\<close> for strings.\<close>

fun contains :: "string \<Rightarrow> string \<Rightarrow> bool" where
  "contains [] sub = (sub = [])"
| "contains (c # cs) sub = (startswith (c # cs) sub \<or> contains cs sub)"

text \<open>\<open>" ".join(parts)\<close>.\<close>

fun join_space :: "string list \<Rightarrow> string" where
  "join_space [] = []"
| "join_space [w] = w"
| "join_space (w # v # ws) = w @ '' '' @ join_space (v # ws)"

text \<open>\<open>str(n)\<close> for a non-negative integer.\<close>

definition digit_char :: "nat \<Rightarrow> char" where
  "digit_char d = (''0123456789'' ! d)"

function str_nat :: "nat \<Rightarrow> string" where
  "str_nat n = (if n < 10 then [digit_char n] else str_nat (n div 10) @ [digit_char (n mod 10)])"
  by pat_completeness auto
termination
  by (relation "measure id") auto

declare str_nat.simps [simp del]

text \<open>\<open>re.sub(r"^by\s+", "", text, flags=re.IGNORECASE).strip()\<close>: the pattern is anchored at
  the start, so at most one occurrence is removed; \<open>\s+\<close> is greedy.\<close>

fun strip_by_prefix :: "string \<Rightarrow> string" where
  "strip_by_prefix (b # y # c # rest) =
     (if lower_c b = CHR ''b'' \<and> lower_c y = CHR ''y'' \<and> isspace_c c
      then strip (dropWhile isspace_c rest) else strip (b # y # c # rest))"
| "strip_by_prefix s = strip s"

section \<open>Line records (\<open>app/normalize.py\<close>)\<close>

datatype py_error = IndexError | ValidationError

text \<open>Indexing a Python list with a non-negative constant index.\<close>

definition idx :: "'a list \<Rightarrow> nat \<Rightarrow> py_error + 'a" where
  "idx xs i = (if i < length xs then Inr (xs ! i) else Inl IndexError)"

definition bind_e :: "py_error + 'a \<Rightarrow> ('a \<Rightarrow> py_error + 'b) \<Rightarrow> py_error + 'b" where
  "bind_e m f = (case m of Inl e \<Rightarrow> Inl e | Inr x \<Rightarrow> f x)"

record LineRecord =
  "text" :: string
  bbox :: "real list"
  line_conf :: "real option"
  height :: real
  center_x :: real
  center_y :: real
  word_count :: int
  char_len :: int
  tokens :: "string list"
  caps_ratio :: real

definition calculate_caps_ratio :: "string \<Rightarrow> real" where
  "calculate_caps_ratio t =
     (if t = [] then 0
      else let letters = filter isalpha_c t in
        if letters = [] then 0
        else real (length (filter isupper_c letters)) / real (length letters))"

section \<open>Heuristic scoring (\<open>app/ranker.py\<close>)\<close>

definition JUNK_KEYWORDS :: "string list" where
  "JUNK_KEYWORDS =
     [''A NOVEL'', ''NEW YORK TIMES'', ''BESTSELLER'', ''WINNER'', ''NOW A MAJOR MOTION PICTURE'',
      ''FOREWORD'', ''INTRODUCTION'', ''VOLUME'', ''BOOK ONE'', ''BOOK TWO'', ''BOOK THREE'',
      ''EDITION'', ''REVISED'', ''UPDATED'', ''COPYRIGHT'', ''PUBLISHED BY'', ''ISBN'', ''WWW.'',
      ''HTTP://'', ''HTTPS://'']"

text \<open>\<open>URL_PATTERN.search\<close>: the pattern \<open>https?://|www\.|\.com|\.org|\.net\<close> is a choice of
  literals matched case-insensitively, so a search is a substring test on the lowered text.\<close>

definition url_search :: "string \<Rightarrow> bool" where
  "url_search t =
     list_ex (contains (lower t)) [''http://'', ''https://'', ''www.'', ''.com'', ''.org'', ''.net'']"

text \<open>\<open>EMAIL_PATTERN.search\<close> for \<open>[a-zA-Z0-9._%+-]+@[a-zA-Z0-9.-]+\.[a-zA-Z]{2,}\<close>: some \<open>@\<close> is
  preceded by a character of the first class and followed by one or more characters of the
  second class, a dot and two letters.\<close>

definition email_local_c :: "char \<Rightarrow> bool" where
  "email_local_c c = (isalpha_c c \<or> isdigit_c c \<or> c \<in> set ''._%+-'')"

definition email_domain_c :: "char \<Rightarrow> bool" where
  "email_domain_c c = (isalpha_c c \<or> isdigit_c c \<or> c \<in> set ''.-'')"

fun two_letters :: "string \<Rightarrow> bool" where
  "two_letters (a # b # rest) = (isalpha_c a \<and> isalpha_c b)"
| "two_letters s = False"

fun email_domain_tail :: "string \<Rightarrow> bool" where
  "email_domain_tail [] = False"
| "email_domain_tail (c # cs) =
     ((c = CHR ''.'' \<and> two_letters cs) \<or> (email_domain_c c \<and> email_domain_tail cs))"

fun email_domain :: "string \<Rightarrow> bool" where
  "email_domain [] = False"
| "email_domain (c # cs) = (email_domain_c c \<and> email_domain_tail cs)"

fun email_search :: "string \<Rightarrow> bool" where
  "email_search (a # b # rest) =
     ((email_local_c a \<and> b = CHR ''@'' \<and> email_domain rest) \<or> email_search (b # rest))"
| "email_search s = False"

definition is_junk :: "string \<Rightarrow> bool" where
  "is_junk t =
     (let text_upper = upper t in
      if list_ex (contains text_upper) JUNK_KEYWORDS then True
      else if url_search t \<or> email_search t then True
      else if length t > 200 then True
      else False)"

definition stopwords :: "string list" where
  "stopwords = [''the'', ''a'', ''an'', ''and'', ''or'', ''but'', ''in'', ''on'', ''at'', ''to'', ''for'']"

text \<open>The loop over the tokens that clears \<open>all_caps_or_initial\<close>: empty tokens are passed
  over, every other token must start with an uppercase letter or be a two-character
  initial such as \<open>J.\<close>\<close>

definition caps_or_initial :: "string \<Rightarrow> bool" where
  "caps_or_initial token =
     (case token of [] \<Rightarrow> True
      | c # cs \<Rightarrow> isupper_c c \<or> (length token = 2 \<and> cs = ''.''))"

definition person_like_score :: "string \<Rightarrow> string list \<Rightarrow> real" where
  "person_like_score t toks =
     (if t = [] \<or> toks = [] then 0
      else
        let s0 = (if 2 \<le> length toks \<and> length toks \<le> 5 then 0.3
                  else if length toks = 1 then 0.1 else 0);
            alpha_chars = length (filter isalpha_c t);
            s1 = (if real alpha_chars / real (length t) > 0.8 then s0 + 0.2 else s0);
            s2 = (if list_all caps_or_initial toks then s1 + 0.3 else s1);
            s3 = (if isupper t \<and> length t > 5 then s2 - 0.1 else s2);
            s4 = (if list_ex isdigit_c t then s3 - 0.2 else s3);
            s5 = (if list_ex (\<lambda>tk. lower tk \<in> set stopwords) toks then s4 - 0.2 else s4)
        in max 0 (min 1 s5))"

definition has_by_prefix :: "string \<Rightarrow> bool" where
  "has_by_prefix t =
     (let text_lower = strip (lower t) in startswith text_lower ''by '' \<or> text_lower = ''by'')"

definition calculate_bbox_iou :: "real list \<Rightarrow> real list \<Rightarrow> real" where
  "calculate_bbox_iou bbox1 bbox2 =
     (if length bbox1 < 4 \<or> length bbox2 < 4 then 0
      else
        let x1_1 = bbox1 ! 0; y1_1 = bbox1 ! 1; x2_1 = bbox1 ! 2; y2_1 = bbox1 ! 3;
            x1_2 = bbox2 ! 0; y1_2 = bbox2 ! 1; x2_2 = bbox2 ! 2; y2_2 = bbox2 ! 3;
            x1_i = max x1_1 x1_2; y1_i = max y1_1 y1_2;
            x2_i = min x2_1 x2_2; y2_i = min y2_1 y2_2
        in if x2_i \<le> x1_i \<or> y2_i \<le> y1_i then 0
           else
             let intersection = (x2_i - x1_i) * (y2_i - y1_i);
                 area1 = (x2_1 - x1_1) * (y2_1 - y1_1);
                 area2 = (x2_2 - x1_2) * (y2_2 - y1_2);
                 union = area1 + area2 - intersection
             in if union > 0 then intersection / union else 0)"

text \<open>\<open>line.line_conf and line.line_conf > 50\<close>.\<close>

definition conf_boost :: "real option \<Rightarrow> bool" where
  "conf_boost c = (case c of None \<Rightarrow> False | Some v \<Rightarrow> v \<noteq> 0 \<and> v > 50)"

definition title_score :: "LineRecord \<Rightarrow> real \<Rightarrow> real \<Rightarrow> real" where
  "title_score line max_height image_height =
     (let s1 = (if max_height > 0 then (height line / max_height) * 0.3 else 0);
          center_score = 1 - \<bar>center_x line - 0.5\<bar> * 2;
          s2 = s1 + max 0 center_score * 0.2;
          s3 = (if center_y line < 0.33 then s2 + 0.15
                else if 0.33 \<le> center_y line \<and> center_y line \<le> 0.67 then s2 + 0.2
                else s2 + 0.05);
          s4 = (if 1 \<le> word_count line \<and> word_count line \<le> 10 then s3 + 0.15
                else if word_count line > 15 then s3 - 0.1 else s3);
          person_score = person_like_score (text line) (tokens line);
          s5 = s4 - person_score * 0.1;
          s6 = (if is_junk (text line) then s5 - 0.5 else s5);
          s7 = (if conf_boost (line_conf line) then s6 + 0.1 else s6)
      in max 0 s7)"

text \<open>\<open>author_score\<close> assigns to \<open>line.text\<close>, so the model returns the score together with
  the record as the call leaves it.  The junk test after the assignment reads the new text.\<close>

definition author_score :: "LineRecord \<Rightarrow> real \<Rightarrow> real \<Rightarrow> real \<times> LineRecord" where
  "author_score line max_height image_height =
     (let person_score = person_like_score (text line) (tokens line);
          s1 = person_score * 0.4;
          has_by = has_by_prefix (text line);
          s2 = (if has_by then s1 + 0.3 else s1);
          line' = (if has_by then line\<lparr>text := strip_by_prefix (text line)\<rparr> else line);
          s3 = (if max_height > 0
                then (let size_norm = height line' / max_height in
                      if 0.3 \<le> size_norm \<and> size_norm \<le> 1.2 then s2 + 0.15 else s2)
                else s2);
          s4 = (if center_y line' > 0.67 then s3 + 0.15
                else if center_y line' < 0.33 then s3 + 0.1 else s3);
          s5 = (if 1 \<le> word_count line' \<and> word_count line' \<le> 5 then s4 + 0.15
                else if word_count line' > 8 then s4 - 0.1 else s4);
          s6 = (if is_junk (text line') then s5 - 0.5 else s5);
          s7 = (if conf_boost (line_conf line') then s6 + 0.1 else s6)
      in (max 0 s7, line'))"

subsection \<open>Adjacent-line merge\<close>

text \<open>\<open>a if a and b else a or b\<close> on optional confidences: \<open>None\<close> and \<open>0.0\<close> are both falsy.\<close>

definition truthy_conf :: "real option \<Rightarrow> bool" where
  "truthy_conf c = (case c of None \<Rightarrow> False | Some v \<Rightarrow> v \<noteq> 0)"

definition merged_conf :: "real option \<Rightarrow> real option \<Rightarrow> real option" where
  "merged_conf c1 c2 =
     (if truthy_conf c1 \<and> truthy_conf c2 then Some ((the c1 + the c2) / 2)
      else if truthy_conf c1 then c1 else c2)"

text \<open>The body of the merge branch: the record built from \<open>current\<close> and \<open>candidate\<close>.
  Reading a coordinate that a box does not have raises \<open>IndexError\<close>.\<close>

definition merge_pair :: "LineRecord \<Rightarrow> LineRecord \<Rightarrow> py_error + LineRecord" where
  "merge_pair current candidate =
     (if length (bbox current) < 4 \<or> length (bbox candidate) < 4 then Inl IndexError
      else
        let merged_text = text current @ '' '' @ text candidate;
            merged_bbox = [min (bbox current ! 0) (bbox candidate ! 0),
                           min (bbox current ! 1) (bbox candidate ! 1),
                           max (bbox current ! 2) (bbox candidate ! 2),
                           max (bbox current ! 3) (bbox candidate ! 3)];
            merged_height = max (height current) (height candidate);
            merged_center_x = (merged_bbox ! 0 + merged_bbox ! 2) / 2;
            merged_center_y = (merged_bbox ! 1 + merged_bbox ! 3) / 2;
            merged_tokens = tokens current @ tokens candidate
        in Inr \<lparr>text = merged_text, bbox = merged_bbox,
                 line_conf = merged_conf (line_conf current) (line_conf candidate),
                 height = merged_height, center_x = merged_center_x, center_y = merged_center_y,
                 word_count = int (length merged_tokens), char_len = int (length merged_text),
                 tokens = merged_tokens, caps_ratio = calculate_caps_ratio merged_text\<rparr>)"

text \<open>
  The two nested \<open>while\<close> loops as one recursion over the lines after \<open>current\<close>.  The inner
  loop looks at \<open>candidate = lines[j]\<close>: a \<open>break\<close> leaves \<open>i = j\<close>, so the outer loop
  appends \<open>current\<close> as it stands and restarts with the candidate as the new \<open>current\<close>;
  \<open>j += 1; continue\<close> passes over the candidate; a merge replaces \<open>merged[-1]\<close> by the new
  record and goes on with it.  When the lines run out, \<open>current\<close> is the last entry.
\<close>

fun merge_sweep :: "real \<Rightarrow> LineRecord \<Rightarrow> LineRecord list \<Rightarrow> py_error + LineRecord list" where
  "merge_sweep avg_height current [] = Inr [current]"
| "merge_sweep avg_height current (candidate # rest) =
     (if length (bbox candidate) < 2 \<or> length (bbox current) < 4 then Inl IndexError
      else
        let delta_y = \<bar>bbox candidate ! 1 - bbox current ! 3\<bar> in
        if delta_y > 0.6 * avg_height then
          (case merge_sweep avg_height candidate rest of
             Inl e \<Rightarrow> Inl e | Inr ms \<Rightarrow> Inr (current # ms))
        else if \<bar>center_x candidate - center_x current\<bar> > 0.1 then
          merge_sweep avg_height current rest
        else if word_count current \<le> 5 \<and> word_count candidate \<le> 5 then
          (case merge_pair current candidate of
             Inl e \<Rightarrow> Inl e | Inr m \<Rightarrow> merge_sweep avg_height m rest)
        else
          (case merge_sweep avg_height candidate rest of
             Inl e \<Rightarrow> Inl e | Inr ms \<Rightarrow> Inr (current # ms)))"

definition merge_adjacent_lines :: "LineRecord list \<Rightarrow> py_error + LineRecord list" where
  "merge_adjacent_lines lines =
     (case lines of [] \<Rightarrow> Inr []
      | l # ls \<Rightarrow>
          let avg_height = sum_list (map height lines) / real (length lines)
          in merge_sweep avg_height l ls)"

subsection \<open>Request and response shapes (\<open>app/models.py\<close>)\<close>

text \<open>Of \<open>OCRInput\<close> only \<open>image\<close> and \<open>chunks\<close> are read by the normalizer and the ranker; the
  request id, the full text, the timings and the upstream warnings are left out.\<close>

record ImageInfo =
  img_width :: int
  img_height :: int

record Word =
  w_bbox :: "real list"
  w_confidence :: "real option"
  w_text :: string

record Line =
  ln_bbox :: "real list"
  ln_confidence :: "real option"
  ln_text :: "string option"
  ln_words :: "Word list"

record Paragraph =
  par_lines :: "Line list"

record Block =
  paragraphs :: "Paragraph list"

record Chunks =
  blocks :: "Block list"

record OCRInput =
  image :: "ImageInfo option"
  chunks :: "Chunks option"

record ParseSettings =
  conf_min_word :: int
  conf_min_line :: int
  max_lines_considered :: int
  merge_adjacent_lines_flag :: bool
  junk_filter :: bool
  verify :: bool
  verify_provider_order :: "string list"
  max_verify_queries :: int

record CandidateFeatures =
  f_size_norm :: real
  f_center_norm :: real
  f_upper_third :: real
  f_lower_third :: real
  f_char_len :: int
  f_word_count :: int
  f_caps_ratio :: real
  f_has_by_prefix :: bool
  f_person_like :: real
  f_junk_like :: real
  f_line_conf :: "real option"

record Candidate =
  c_text :: string
  c_score :: real
  c_bbox :: "real list"
  c_features :: CandidateFeatures

record MethodInfo =
  ranker :: string
  verifier :: string
  fallback :: string

record Candidates =
  cands_title :: "Candidate list"
  cands_author :: "Candidate list"

text \<open>The dictionary returned by \<open>rank_candidates\<close>.\<close>

record RankResult =
  title :: "string option"
  author :: "string option"
  confidence :: real
  method_info :: MethodInfo
  candidates :: Candidates
  warnings :: "string list"

subsection \<open>\<open>rank_candidates\<close>\<close>

type_synonym scored = "LineRecord \<times> real"

text \<open>\<open>max((l.height for l in lines), default=1.0)\<close>.\<close>

definition max_height_of :: "LineRecord list \<Rightarrow> real" where
  "max_height_of lines = (case lines of [] \<Rightarrow> 1 | l # ls \<Rightarrow> fold max (map height ls) (height l))"

text \<open>One round of the scoring loop.  Both score lists receive the same object, and
  \<open>author_score\<close> has assigned to its text by the time the lists are read, so both entries
  carry the record as \<open>author_score\<close> left it.  The lines of the list are taken to be
  distinct objects, as the normalizer and the merge pass produce them.\<close>

definition score_line :: "real \<Rightarrow> real \<Rightarrow> LineRecord \<Rightarrow> scored \<times> scored" where
  "score_line max_height image_height line =
     (let title_sc = title_score line max_height image_height;
          r = author_score line max_height image_height
      in ((snd r, title_sc), (snd r, fst r)))"

text \<open>\<open>list.sort(key=lambda x: x[1], reverse=True)\<close> is stable: equal scores keep their
  scan order.  \<open>[:5]\<close> keeps the first five.\<close>

definition top5 :: "scored list \<Rightarrow> scored list" where
  "top5 scores = take 5 (sort_key (\<lambda>x. - snd x) scores)"

definition candidate_features :: "real \<Rightarrow> LineRecord \<Rightarrow> CandidateFeatures" where
  "candidate_features max_height line =
     \<lparr>f_size_norm = (if max_height > 0 then height line / max_height else 0),
      f_center_norm = 1 - \<bar>center_x line - 0.5\<bar> * 2,
      f_upper_third = (if center_y line < 0.33 then 1 else 0),
      f_lower_third = (if center_y line > 0.67 then 1 else 0),
      f_char_len = char_len line,
      f_word_count = word_count line,
      f_caps_ratio = caps_ratio line,
      f_has_by_prefix = has_by_prefix (text line),
      f_person_like = person_like_score (text line) (tokens line),
      f_junk_like = (if is_junk (text line) then 1 else 0),
      f_line_conf = line_conf line\<rparr>"

text \<open>\<open>Candidate(...)\<close> validates its box: exactly four coordinates, or the constructor
  raises.\<close>

definition make_candidate ::
  "string \<Rightarrow> real \<Rightarrow> real list \<Rightarrow> CandidateFeatures \<Rightarrow> py_error + Candidate" where
  "make_candidate t sc bb fs =
     (if length bb = 4 then Inr \<lparr>c_text = t, c_score = sc, c_bbox = bb, c_features = fs\<rparr>
      else Inl ValidationError)"

fun build_candidates ::
  "(LineRecord \<Rightarrow> string) \<Rightarrow> real \<Rightarrow> scored list \<Rightarrow> py_error + Candidate list" where
  "build_candidates display max_height [] = Inr []"
| "build_candidates display max_height ((line, score) # rest) =
     (case make_candidate (display line) score (bbox line) (candidate_features max_height line) of
        Inl e \<Rightarrow> Inl e
      | Inr c \<Rightarrow> (case build_candidates display max_height rest of
                    Inl e \<Rightarrow> Inl e | Inr cs \<Rightarrow> Inr (c # cs)))"

text \<open>\<open>tops[0][0] if tops else None\<close>.\<close>

definition first_line :: "scored list \<Rightarrow> py_error + LineRecord option" where
  "first_line tops =
     (if tops \<noteq> [] then bind_e (idx tops 0) (\<lambda>x. Inr (Some (fst x))) else Inr None)"

text \<open>\<open>tops[1][0] if len(tops) > 1 else None\<close>.\<close>

definition runner_up :: "scored list \<Rightarrow> py_error + LineRecord option" where
  "runner_up tops =
     (if length tops > 1 then bind_e (idx tops 1) (\<lambda>x. Inr (Some (fst x))) else Inr None)"

text \<open>Enforce separation: title and author cannot be identical.\<close>

definition identity_guard ::
  "scored list \<Rightarrow> scored list \<Rightarrow> LineRecord option \<Rightarrow> LineRecord option
     \<Rightarrow> py_error + (LineRecord option \<times> LineRecord option)" where
  "identity_guard top_title top_author best_title best_author =
     (case (best_title, best_author) of
        (Some t, Some a) \<Rightarrow>
          if lower (text t) = lower (text a) then
            bind_e (idx top_title 0) (\<lambda>t0. bind_e (idx top_author 0) (\<lambda>a0.
              if snd t0 > snd a0
              then bind_e (runner_up top_author) (\<lambda>a'. Inr (best_title, a'))
              else bind_e (runner_up top_title) (\<lambda>t'. Inr (t', best_author))))
          else Inr (best_title, best_author)
      | _ \<Rightarrow> Inr (best_title, best_author))"

text \<open>The two \<open>for ... break\<close> searches of the overlap guard; the last argument is the
  choice kept when no alternative is taken.\<close>

fun title_alternative :: "scored list \<Rightarrow> LineRecord \<Rightarrow> LineRecord \<Rightarrow> LineRecord" where
  "title_alternative [] best_author best_title = best_title"
| "title_alternative ((title_line, t_score) # rest) best_author best_title =
     (if calculate_bbox_iou (bbox title_line) (bbox best_author) < 0.2 then title_line
      else title_alternative rest best_author best_title)"

fun author_alternative :: "scored list \<Rightarrow> LineRecord \<Rightarrow> LineRecord \<Rightarrow> LineRecord" where
  "author_alternative [] best_title best_author = best_author"
| "author_alternative ((author_line, a_score) # rest) best_title best_author =
     (if calculate_bbox_iou (bbox best_title) (bbox author_line) < 0.2 then author_line
      else author_alternative rest best_title best_author)"

text \<open>The second test reads \<open>iou\<close> again, which the title search has not updated.\<close>

definition overlap_guard ::
  "scored list \<Rightarrow> scored list \<Rightarrow> LineRecord option \<Rightarrow> LineRecord option
     \<Rightarrow> LineRecord option \<times> LineRecord option" where
  "overlap_guard top_title top_author best_title best_author =
     (case (best_title, best_author) of
        (Some t, Some a) \<Rightarrow>
          let iou = calculate_bbox_iou (bbox t) (bbox a) in
          if iou > 0.2 then
            let t' = title_alternative (drop 1 top_title) a t in
            if iou > 0.2 then (Some t', Some (author_alternative (drop 1 top_author) t' a))
            else (Some t', Some a)
          else (best_title, best_author)
      | _ \<Rightarrow> (best_title, best_author))"

definition swap_warning :: string where
  "swap_warning = ''Applied swap logic: title/author may be reversed''"

definition swap_heuristic ::
  "scored list \<Rightarrow> scored list \<Rightarrow> LineRecord option \<Rightarrow> LineRecord option \<Rightarrow> string list
     \<Rightarrow> py_error + (LineRecord option \<times> LineRecord option \<times> string list)" where
  "swap_heuristic top_title top_author best_title best_author warns =
     (case (best_title, best_author) of
        (Some t, Some a) \<Rightarrow>
          let title_person = person_like_score (text t) (tokens t);
              author_person = person_like_score (text a) (tokens a)
          in if title_person > 0.6 \<and> author_person < 0.3 then
               bind_e (idx top_author 0) (\<lambda>a0. bind_e (idx top_title 0) (\<lambda>t0.
                 if snd a0 > snd t0 * 0.8
                 then Inr (best_author, best_title, warns @ [swap_warning])
                 else Inr (best_title, best_author, warns)))
             else Inr (best_title, best_author, warns)
      | _ \<Rightarrow> Inr (best_title, best_author, warns))"

text \<open>The confidence of one category: the margin of the top score over the runner-up,
  blended with the OCR confidence of the chosen line when it has a non-zero one.\<close>

definition category_conf :: "scored list \<Rightarrow> LineRecord option \<Rightarrow> py_error + real" where
  "category_conf tops best =
     (if tops \<noteq> [] then
        bind_e (idx tops 0) (\<lambda>x0.
        bind_e (if length tops > 1 then bind_e (idx tops 1) (\<lambda>x1. Inr (snd x1)) else Inr 0)
          (\<lambda>top2_score.
            let top1_score = snd x0;
                margin = (if top2_score > 0 then top1_score - top2_score else top1_score);
                conf = min 1 (margin * 2)
            in Inr (case best of
                      None \<Rightarrow> conf
                    | Some b \<Rightarrow> if truthy_conf (line_conf b)
                                then (conf + the (line_conf b) / 100) / 2 else conf)))
      else Inr 0)"

definition heuristic_method :: MethodInfo where
  "heuristic_method = \<lparr>ranker = ''heuristic_v1'', verifier = ''none'', fallback = ''none''\<rparr>"

text \<open>
  \<open>rank_candidates\<close> is written in three parts, in the order of the source: \<open>prepare\<close>
  (validity filter is applied before it; junk filter and merge pass), \<open>initial_pick\<close>
  (scoring, top five, candidate objects, the top choices and the identity guard), and
  \<open>rank_scored\<close> (overlap guard, swap heuristic, confidence and the result).
\<close>

definition valid_lines :: "LineRecord list \<Rightarrow> LineRecord list" where
  "valid_lines lines = filter (\<lambda>l. text l \<noteq> [] \<and> strip (text l) \<noteq> []) lines"

definition junk_warning :: "nat \<Rightarrow> string" where
  "junk_warning n = ''Filtered '' @ str_nat n @ '' junk lines''"

text \<open>The junk filter and the merge pass on the valid lines: the lines to score and the
  warnings so far.\<close>

definition prepare ::
  "LineRecord list \<Rightarrow> ParseSettings \<Rightarrow> py_error + (LineRecord list \<times> string list)" where
  "prepare lines1 settings =
     (let lines2 = (if junk_filter settings
                    then filter (\<lambda>l. \<not> is_junk (text l)) lines1 else lines1);
          warns = (if junk_filter settings \<and> length lines2 < length lines1
                   then [junk_warning (length lines1 - length lines2)] else [])
      in bind_e (if merge_adjacent_lines_flag settings
                 then merge_adjacent_lines lines2 else Inr lines2)
           (\<lambda>lines3. Inr (lines3, warns)))"

type_synonym pick =
  "scored list \<times> scored list \<times> Candidate list \<times> Candidate list
     \<times> LineRecord option \<times> LineRecord option"

definition initial_pick :: "LineRecord list \<Rightarrow> OCRInput \<Rightarrow> py_error + pick" where
  "initial_pick lines ocr =
     (let image_height = (case image ocr of Some im \<Rightarrow> real_of_int (img_height im) | None \<Rightarrow> 1000);
          max_height = max_height_of lines;
          scores = map (score_line max_height image_height) lines;
          top_title_candidates = top5 (map fst scores);
          top_author_candidates = top5 (map snd scores)
      in
      bind_e (build_candidates text max_height top_title_candidates) (\<lambda>title_candidates.
      bind_e (build_candidates (\<lambda>l. strip_by_prefix (text l)) max_height top_author_candidates)
        (\<lambda>author_candidates.
      bind_e (first_line top_title_candidates) (\<lambda>bt0.
      bind_e (first_line top_author_candidates) (\<lambda>ba0.
      bind_e (identity_guard top_title_candidates top_author_candidates bt0 ba0) (\<lambda>g.
        Inr (top_title_candidates, top_author_candidates, title_candidates, author_candidates,
             fst g, snd g)))))))"

definition rank_scored :: "LineRecord list \<Rightarrow> OCRInput \<Rightarrow> string list \<Rightarrow> py_error + RankResult" where
  "rank_scored lines ocr warns =
     bind_e (initial_pick lines ocr)
       (\<lambda>(top_title_candidates, top_author_candidates, title_candidates, author_candidates,
           bt1, ba1).
      case overlap_guard top_title_candidates top_author_candidates bt1 ba1 of (bt2, ba2) \<Rightarrow>
      bind_e (swap_heuristic top_title_candidates top_author_candidates bt2 ba2 warns)
        (\<lambda>(best_title, best_author, warns').
      bind_e (category_conf top_title_candidates best_title) (\<lambda>title_conf.
      bind_e (category_conf top_author_candidates best_author) (\<lambda>author_conf.
        Inr \<lparr>title = map_option text best_title,
             author = map_option text best_author,
             confidence = (title_conf + author_conf) / 2,
             method_info = heuristic_method,
             candidates = \<lparr>cands_title = title_candidates, cands_author = author_candidates\<rparr>,
             warnings = warns'\<rparr>))))"

definition rank_candidates ::
  "LineRecord list \<Rightarrow> OCRInput \<Rightarrow> ParseSettings \<Rightarrow> py_error + RankResult" where
  "rank_candidates lines ocr settings =
     (let lines1 = valid_lines lines in
      if lines1 = [] then
        Inr \<lparr>title = None, author = None, confidence = 0, method_info = heuristic_method,
             candidates = \<lparr>cands_title = [], cands_author = []\<rparr>,
             warnings = [''No valid lines found in OCR'']\<rparr>
      else bind_e (prepare lines1 settings) (\<lambda>(lines3, warns). rank_scored lines3 ocr warns))"

section \<open>The normalizer (\<open>app/normalize.py\<close>)\<close>

text \<open>\<open>extract_text_from_words\<close> on the texts of the words.\<close>

definition extract_text_from_words :: "string list \<Rightarrow> string" where
  "extract_text_from_words ws = (if ws = [] then [] else join_space (filter (\<lambda>t. t \<noteq> []) ws))"

text \<open>The body of the innermost loop for one OCR line; \<open>None\<close> is a \<open>continue\<close>.\<close>

definition normalize_line :: "int \<Rightarrow> int \<Rightarrow> Line \<Rightarrow> LineRecord option" where
  "normalize_line image_width image_height line =
     (let t0 = ln_text line;
          t1 = (if (t0 = None \<or> t0 = Some []) \<and> ln_words line \<noteq> []
                then Some (extract_text_from_words (map w_text (ln_words line))) else t0)
      in case t1 of
           None \<Rightarrow> None
         | Some t \<Rightarrow>
             if t = [] \<or> strip t = [] then None
             else
               let b = ln_bbox line in
               if length b < 4 then None
               else
                 let x1 = b ! 0; y1 = b ! 1; x2 = b ! 2; y2 = b ! 3;
                     confidences = List.map_filter w_confidence (ln_words line);
                     lconf = (case ln_confidence line of
                                Some c \<Rightarrow> Some c
                              | None \<Rightarrow>
                                  if ln_words line \<noteq> [] \<and> confidences \<noteq> []
                                  then Some (sum_list confidences / real (length confidences))
                                  else None);
                     h = y2 - y1;
                     cx = (x1 + x2) / 2;
                     cy = (y1 + y2) / 2;
                     center_x_norm = (if image_width > 0 then cx / real_of_int image_width else 0.5);
                     center_y_norm = (if image_height > 0 then cy / real_of_int image_height else 0.5);
                     toks = split t
                 in Some \<lparr>text = strip t, bbox = b, line_conf = lconf, height = h,
                          center_x = center_x_norm, center_y = center_y_norm,
                          word_count = int (length toks), char_len = int (length t),
                          tokens = toks, caps_ratio = calculate_caps_ratio t\<rparr>)"

text \<open>The lines of the hierarchy in document order: blocks, then paragraphs, then lines.\<close>

definition ocr_lines :: "OCRInput \<Rightarrow> Line list" where
  "ocr_lines ocr =
     (case chunks ocr of
        None \<Rightarrow> []
      | Some ch \<Rightarrow> concat (map (\<lambda>b. concat (map par_lines (paragraphs b))) (blocks ch)))"

definition normalize_ocr :: "OCRInput \<Rightarrow> ParseSettings \<Rightarrow> LineRecord list" where
  "normalize_ocr ocr settings =
     (let image_width = (case image ocr of Some im \<Rightarrow> img_width im | None \<Rightarrow> 1000);
          image_height = (case image ocr of Some im \<Rightarrow> img_height im | None \<Rightarrow> 1000);
          lines = List.map_filter (normalize_line image_width image_height) (ocr_lines ocr)
      in if max_lines_considered settings > 0
         then take (nat (max_lines_considered settings)) lines else lines)"

section \<open>Similarity (\<open>app/similarity.py\<close>)\<close>

text \<open>\<open>not s\<close> for an optional string.\<close>

definition falsy_str :: "string option \<Rightarrow> bool" where
  "falsy_str s = (s = None \<or> s = Some [])"

text \<open>The library ratio \<open>fuzz.token_set_ratio\<close> (a percentage) is a parameter: \<open>None\<close> stands
  for \<open>HAS_RAPIDFUZZ = False\<close>, where the Jaccard fallback over the token sets runs.  The
  sets are kept as duplicate-free lists.\<close>

type_synonym fuzz = "(string \<Rightarrow> string \<Rightarrow> real) option"

definition token_set_ratio :: "fuzz \<Rightarrow> string option \<Rightarrow> string option \<Rightarrow> real" where
  "token_set_ratio lib s1 s2 =
     (if falsy_str s1 \<or> falsy_str s2 then 0
      else case lib of
        Some ratio \<Rightarrow> ratio (lower (the s1)) (lower (the s2)) / 100
      | None \<Rightarrow>
          let tokens1 = remdups (split (lower (the s1)));
              tokens2 = remdups (split (lower (the s2)))
          in if tokens1 = [] \<or> tokens2 = [] then 0
             else
               let intersection = length (filter (\<lambda>t. t \<in> set tokens2) tokens1);
                   union = length (remdups (tokens1 @ tokens2))
               in if union > 0 then real intersection / real union else 0)"

definition weighted_similarity ::
  "fuzz \<Rightarrow> string option \<Rightarrow> string option \<Rightarrow> string option \<Rightarrow> string option \<Rightarrow> real \<Rightarrow> real" where
  "weighted_similarity lib title1 title2 author1 author2 title_weight =
     (let title_sim = token_set_ratio lib title1 title2;
          author_sim = token_set_ratio lib author1 author2
      in title_weight * title_sim + (1 - title_weight) * author_sim)"

section \<open>Verification (\<open>app/verifier\<close>)\<close>

text \<open>
  The catalogs are the environment.  A request either raises in \<open>client.get\<close> (a timeout or
  another exception, each with its message), or comes back with a status and, for status 200,
  the decoded items; \<open>InvalidJson\<close> is a 200 answer whose body \<open>response.json()\<close> rejects.
  Items are taken to be dictionaries of the documented shape whose author lists may hold
  \<open>null\<close>.  The environment answers the \<open>n\<close>-th request of a call by its number, and
  \<open>requests\<close> counts the calls to \<open>client.get\<close>.
\<close>

datatype 'i http_result =
  TimeoutException string
  | OtherException string
  | Response nat "'i list"
  | InvalidJson string

record gb_item =
  gb_id :: "string option"
  gb_title :: string
  gb_authors :: "string option list"
  gb_identifiers :: "(string \<times> string) list"

record ol_doc =
  ol_key :: string
  ol_title :: string
  ol_author_name :: "string option list"
  ol_isbn :: "string list"

datatype query_entry =
  Query string string string
  | QueryError string string

record hit =
  h_provider :: string
  h_title :: string
  h_author :: "string option"
  h_score :: real

record net =
  requests :: nat
  all_queries :: "query_entry list"
  top_hits :: "hit list"

record VerificationCanonical =
  can_title :: string
  can_author :: string
  isbn13 :: "string option"
  source_id :: "string option"

record best =
  b_title :: string
  b_author :: "string option"
  b_isbn13 :: "string option"
  b_source_id :: "string option"
  b_score :: real

text \<open>The dictionary a provider returns.\<close>

record provider_result =
  r_matched :: bool
  r_canonical :: "VerificationCanonical option"
  r_match_confidence :: "real option"
  r_queries_made :: int
  r_notes :: "string list"

text \<open>The locals of a provider between its two queries.\<close>

record search =
  queries_made :: int
  "notes" :: "string list"
  best_match :: "best option"
  best_score :: real

record VerificationDebug =
  queries :: "query_entry list"
  dbg_top_hits :: "hit list"

record Verification =
  attempted :: bool
  matched :: bool
  provider :: "string option"
  match_confidence :: "real option"
  canonical :: "VerificationCanonical option"
  v_notes :: "string list"
  debug :: "VerificationDebug option"

text \<open>\<open>xs[0] if xs else default\<close>.\<close>

definition first_or :: "'a \<Rightarrow> 'a list \<Rightarrow> 'a" where
  "first_or d xs = (case xs of [] \<Rightarrow> d | x # _ \<Rightarrow> x)"

fun extract_isbn13 :: "(string \<times> string) list \<Rightarrow> string option" where
  "extract_isbn13 [] = None"
| "extract_isbn13 ((ty, ident) # rest) =
     (if ty = ''ISBN_13'' then Some ident else extract_isbn13 rest)"

text \<open>The loop over the hits of one answer: every hit is logged, a strictly better score
  replaces the best match.\<close>

fun scan_hits ::
  "string \<Rightarrow> ('i \<Rightarrow> best) \<Rightarrow> (best \<Rightarrow> real) \<Rightarrow> 'i list \<Rightarrow> search \<times> net \<Rightarrow> search \<times> net" where
  "scan_hits pname mk score_of [] (ss, st) = (ss, st)"
| "scan_hits pname mk score_of (item # items) (ss, st) =
     (let b0 = mk item;
          score = score_of b0;
          st' = st\<lparr>top_hits := top_hits st @
                  [\<lparr>h_provider = pname, h_title = b_title b0, h_author = b_author b0,
                    h_score = score\<rparr>]\<rparr>;
          ss' = (if score > best_score ss
                 then ss\<lparr>best_score := score, best_match := Some (b0\<lparr>b_score := score\<rparr>)\<rparr>
                 else ss)
      in scan_hits pname mk score_of items (ss', st'))"

definition gb_best :: "gb_item \<Rightarrow> best" where
  "gb_best item =
     \<lparr>b_title = gb_title item, b_author = first_or (Some []) (gb_authors item),
      b_isbn13 = extract_isbn13 (gb_identifiers item), b_source_id = gb_id item, b_score = 0\<rparr>"

definition ol_best :: "ol_doc \<Rightarrow> best" where
  "ol_best doc =
     \<lparr>b_title = ol_title doc, b_author = first_or (Some []) (ol_author_name doc),
      b_isbn13 = first_or None (map Some (ol_isbn doc)), b_source_id = Some (ol_key doc),
      b_score = 0\<rparr>"

text \<open>\<open>VerificationCanonical(...)\<close> validates its fields: an author that is \<open>None\<close> raises.\<close>

definition make_canonical :: "best \<Rightarrow> py_error + VerificationCanonical" where
  "make_canonical b =
     (case b_author b of
        None \<Rightarrow> Inl ValidationError
      | Some a \<Rightarrow> Inr \<lparr>can_title = b_title b, can_author = a, isbn13 = b_isbn13 b,
                       source_id = b_source_id b\<rparr>)"

text \<open>The common ending of both providers: a best match at or above the threshold 0.6
  is returned with its canonical record.\<close>

definition provider_return :: "search \<Rightarrow> py_error + provider_result" where
  "provider_return ss =
     (case best_match ss of
        Some b \<Rightarrow>
          if best_score ss \<ge> 0.6 then
            bind_e (make_canonical b) (\<lambda>c.
              Inr \<lparr>r_matched = True, r_canonical = Some c,
                   r_match_confidence = Some (best_score ss),
                   r_queries_made = queries_made ss, r_notes = notes ss\<rparr>)
          else Inr \<lparr>r_matched = False, r_canonical = None, r_match_confidence = None,
                    r_queries_made = queries_made ss, r_notes = notes ss\<rparr>
      | None \<Rightarrow> Inr \<lparr>r_matched = False, r_canonical = None, r_match_confidence = None,
                     r_queries_made = queries_made ss, r_notes = notes ss\<rparr>)"

definition add_note :: "string \<Rightarrow> search \<Rightarrow> search" where
  "add_note n ss = ss\<lparr>notes := notes ss @ [n]\<rparr>"

text \<open>What follows a successful \<open>client.get\<close>: the query is counted and logged.\<close>

definition count_query :: "string \<Rightarrow> string \<Rightarrow> string \<Rightarrow> search \<times> net \<Rightarrow> search \<times> net" where
  "count_query pname q ty p =
     (case p of (ss, st) \<Rightarrow>
        (ss\<lparr>queries_made := queries_made ss + 1\<rparr>,
         st\<lparr>all_queries := all_queries st @ [Query pname q ty]\<rparr>))"

definition sent :: "net \<Rightarrow> net" where
  "sent st = st\<lparr>requests := requests st + 1\<rparr>"

text \<open>The strict query of Google Books.  The first component tells whether the function
  returns at once (the rate-limit branch).\<close>

definition gb_strict ::
  "(nat \<Rightarrow> gb_item http_result) \<Rightarrow> fuzz \<Rightarrow> string option \<Rightarrow> string option \<Rightarrow> int
     \<Rightarrow> search \<times> net \<Rightarrow> bool \<times> search \<times> net" where
  "gb_strict env lib title_o author_o max_queries p =
     (case p of (ss, st) \<Rightarrow>
      if \<not> falsy_str title_o \<and> \<not> falsy_str author_o \<and> queries_made ss < max_queries then
        let query = the title_o @ '' '' @ the author_o in
        case env (requests st) of
          TimeoutException e \<Rightarrow> (False, add_note ''Google Books request timed out'' ss, sent st)
        | OtherException e \<Rightarrow> (False, add_note (''Google Books error: '' @ e) ss, sent st)
        | InvalidJson e \<Rightarrow>
            (case count_query ''google_books'' query ''strict'' (ss, sent st) of
               (ss', st') \<Rightarrow> (False, add_note (''Google Books error: '' @ e) ss', st'))
        | Response status items \<Rightarrow>
            (case count_query ''google_books'' query ''strict'' (ss, sent st) of
               (ss', st') \<Rightarrow>
                 if status = 200 then
                   (case scan_hits ''google_books'' gb_best
                           (\<lambda>b. weighted_similarity lib title_o (Some (b_title b)) author_o
                                  (b_author b) 0.6) items (ss', st') of
                      (ss'', st'') \<Rightarrow> (False, ss'', st''))
                 else if status = 429 then (True, add_note ''Google Books rate limited'' ss', st')
                 else (False, add_note (''Google Books returned '' @ str_nat status) ss', st'))
      else (False, ss, st))"

text \<open>\<open>author or ""\<close>.\<close>

definition or_empty :: "string option \<Rightarrow> string option" where
  "or_empty a = (if falsy_str a then Some [] else a)"

definition gb_title_only ::
  "(nat \<Rightarrow> gb_item http_result) \<Rightarrow> fuzz \<Rightarrow> string option \<Rightarrow> string option \<Rightarrow> int
     \<Rightarrow> search \<times> net \<Rightarrow> search \<times> net" where
  "gb_title_only env lib title_o author_o max_queries p =
     (case p of (ss, st) \<Rightarrow>
      if best_score ss < 0.7 \<and> \<not> falsy_str title_o \<and> queries_made ss < max_queries then
        case env (requests st) of
          TimeoutException e \<Rightarrow> (add_note (''Google Books title-only error: '' @ e) ss, sent st)
        | OtherException e \<Rightarrow> (add_note (''Google Books title-only error: '' @ e) ss, sent st)
        | InvalidJson e \<Rightarrow>
            (case count_query ''google_books'' (the title_o) ''title_only'' (ss, sent st) of
               (ss', st') \<Rightarrow> (add_note (''Google Books title-only error: '' @ e) ss', st'))
        | Response status items \<Rightarrow>
            (case count_query ''google_books'' (the title_o) ''title_only'' (ss, sent st) of
               (ss', st') \<Rightarrow>
                 if status = 200 then
                   scan_hits ''google_books'' gb_best
                     (\<lambda>b. weighted_similarity lib title_o (Some (b_title b)) (or_empty author_o)
                            (b_author b) 0.8) items (ss', st')
                 else (ss', st'))
      else (ss, st))"

definition no_title_or_author :: provider_result where
  "no_title_or_author =
     \<lparr>r_matched = False, r_canonical = None, r_match_confidence = None, r_queries_made = 0,
      r_notes = [''No title or author'']\<rparr>"

definition search0 :: search where
  "search0 = \<lparr>queries_made = 0, notes = [], best_match = None, best_score = 0\<rparr>"

definition verify_google_books ::
  "(nat \<Rightarrow> gb_item http_result) \<Rightarrow> fuzz \<Rightarrow> string option \<Rightarrow> string option \<Rightarrow> int \<Rightarrow> net
     \<Rightarrow> (py_error + provider_result) \<times> net" where
  "verify_google_books env lib title_o author_o max_queries st =
     (if falsy_str title_o \<and> falsy_str author_o then (Inr no_title_or_author, st)
      else
        case gb_strict env lib title_o author_o max_queries (search0, st) of
          (True, ss, st') \<Rightarrow>
            (Inr \<lparr>r_matched = False, r_canonical = None, r_match_confidence = None,
                  r_queries_made = queries_made ss, r_notes = notes ss\<rparr>, st')
        | (False, ss, st') \<Rightarrow>
            (case gb_title_only env lib title_o author_o max_queries (ss, st') of
               (ss', st'') \<Rightarrow> (provider_return ss', st'')))"

definition ol_strict ::
  "(nat \<Rightarrow> ol_doc http_result) \<Rightarrow> fuzz \<Rightarrow> string option \<Rightarrow> string option \<Rightarrow> int
     \<Rightarrow> search \<times> net \<Rightarrow> search \<times> net" where
  "ol_strict env lib title_o author_o max_queries p =
     (case p of (ss, st) \<Rightarrow>
      if \<not> falsy_str title_o \<and> \<not> falsy_str author_o \<and> queries_made ss < max_queries then
        let query = the title_o @ '' '' @ the author_o in
        case env (requests st) of
          TimeoutException e \<Rightarrow> (add_note ''Open Library request timed out'' ss, sent st)
        | OtherException e \<Rightarrow> (add_note (''Open Library error: '' @ e) ss, sent st)
        | InvalidJson e \<Rightarrow>
            (case count_query ''open_library'' query ''strict'' (ss, sent st) of
               (ss', st') \<Rightarrow> (add_note (''Open Library error: '' @ e) ss', st'))
        | Response status docs \<Rightarrow>
            (case count_query ''open_library'' query ''strict'' (ss, sent st) of
               (ss', st') \<Rightarrow>
                 if status = 200 then
                   scan_hits ''open_library'' ol_best
                     (\<lambda>b. weighted_similarity lib title_o (Some (b_title b)) author_o
                            (b_author b) 0.6) docs (ss', st')
                 else (add_note (''Open Library returned '' @ str_nat status) ss', st'))
      else (ss, st))"

definition ol_title_only ::
  "(nat \<Rightarrow> ol_doc http_result) \<Rightarrow> fuzz \<Rightarrow> string option \<Rightarrow> string option \<Rightarrow> int
     \<Rightarrow> search \<times> net \<Rightarrow> search \<times> net" where
  "ol_title_only env lib title_o author_o max_queries p =
     (case p of (ss, st) \<Rightarrow>
      if best_score ss < 0.7 \<and> \<not> falsy_str title_o \<and> queries_made ss < max_queries then
        case env (requests st) of
          TimeoutException e \<Rightarrow> (add_note (''Open Library title-only error: '' @ e) ss, sent st)
        | OtherException e \<Rightarrow> (add_note (''Open Library title-only error: '' @ e) ss, sent st)
        | InvalidJson e \<Rightarrow>
            (case count_query ''open_library'' (the title_o) ''title_only'' (ss, sent st) of
               (ss', st') \<Rightarrow> (add_note (''Open Library title-only error: '' @ e) ss', st'))
        | Response status docs \<Rightarrow>
            (case count_query ''open_library'' (the title_o) ''title_only'' (ss, sent st) of
               (ss', st') \<Rightarrow>
                 if status = 200 then
                   scan_hits ''open_library'' ol_best
                     (\<lambda>b. weighted_similarity lib title_o (Some (b_title b)) (or_empty author_o)
                            (b_author b) 0.8) docs (ss', st')
                 else (ss', st'))
      else (ss, st))"

definition verify_open_library ::
  "(nat \<Rightarrow> ol_doc http_result) \<Rightarrow> fuzz \<Rightarrow> string option \<Rightarrow> string option \<Rightarrow> int \<Rightarrow> net
     \<Rightarrow> (py_error + provider_result) \<times> net" where
  "verify_open_library env lib title_o author_o max_queries st =
     (if falsy_str title_o \<and> falsy_str author_o then (Inr no_title_or_author, st)
      else
        case ol_strict env lib title_o author_o max_queries (search0, st) of
          (ss, st') \<Rightarrow>
            (case ol_title_only env lib title_o author_o max_queries (ss, st') of
               (ss', st'') \<Rightarrow> (provider_return ss', st'')))"

subsection \<open>The orchestrator\<close>

record catalogs =
  google_books :: "nat \<Rightarrow> gb_item http_result"
  open_library :: "nat \<Rightarrow> ol_doc http_result"

text \<open>\<open>str(e)\<close>, shortened to the name of the exception.\<close>

definition str_error :: "py_error \<Rightarrow> string" where
  "str_error e = (case e of IndexError \<Rightarrow> ''IndexError'' | ValidationError \<Rightarrow> ''ValidationError'')"

definition no_match :: "net \<Rightarrow> Verification" where
  "no_match st =
     \<lparr>attempted = True, matched = False, provider = None, match_confidence = None,
      canonical = None, v_notes = [''No match found in any provider''],
      debug = Some \<lparr>queries = all_queries st, dbg_top_hits = top_hits st\<rparr>\<rparr>"

text \<open>What the loop does with a provider's outcome: a raised exception is logged and the
  count is left as it was; a returned result adds its count, and a match ends the call
  (\<open>Inl\<close>), anything else goes on to the next provider (\<open>Inr\<close>) with the new count.\<close>

definition after_provider ::
  "string \<Rightarrow> int \<Rightarrow> (py_error + provider_result) \<times> net \<Rightarrow> (Verification + int) \<times> net" where
  "after_provider provider_name qm out =
     (case out of
        (Inl e, st) \<Rightarrow>
          (Inr qm, st\<lparr>all_queries := all_queries st @
                        [QueryError provider_name (str_error e)]\<rparr>)
      | (Inr r, st) \<Rightarrow>
          if r_matched r then
            (Inl \<lparr>attempted = True, matched = True, provider = Some provider_name,
                  match_confidence =
                    Some (case r_match_confidence r of None \<Rightarrow> 0 | Some c \<Rightarrow> c),
                  canonical = r_canonical r, v_notes = r_notes r,
                  debug = Some \<lparr>queries = all_queries st, dbg_top_hits = top_hits st\<rparr>\<rparr>, st)
          else (Inr (qm + r_queries_made r), st))"

fun verify_loop ::
  "catalogs \<Rightarrow> fuzz \<Rightarrow> string option \<Rightarrow> string option \<Rightarrow> int \<Rightarrow> string list \<Rightarrow> int \<Rightarrow> net
     \<Rightarrow> Verification \<times> net" where
  "verify_loop env lib title_o author_o max_queries [] qm st = (no_match st, st)"
| "verify_loop env lib title_o author_o max_queries (provider_name # rest) qm st =
     (if qm \<ge> max_queries then (no_match st, st)
      else if provider_name = ''google_books'' then
        (case after_provider provider_name qm
                (verify_google_books (google_books env) lib title_o author_o (max_queries - qm) st) of
           (Inl v, st') \<Rightarrow> (v, st')
         | (Inr qm', st') \<Rightarrow> verify_loop env lib title_o author_o max_queries rest qm' st')
      else if provider_name = ''open_library'' then
        (case after_provider provider_name qm
                (verify_open_library (open_library env) lib title_o author_o (max_queries - qm) st) of
           (Inl v, st') \<Rightarrow> (v, st')
         | (Inr qm', st') \<Rightarrow> verify_loop env lib title_o author_o max_queries rest qm' st')
      else verify_loop env lib title_o author_o max_queries rest qm st)"

definition net0 :: net where
  "net0 = \<lparr>requests = 0, all_queries = [], top_hits = []\<rparr>"

text \<open>The result of the call together with the requests it has sent and its logs.\<close>

definition verify_candidates ::
  "catalogs \<Rightarrow> fuzz \<Rightarrow> string option \<Rightarrow> string option \<Rightarrow> ParseSettings \<Rightarrow> Verification \<times> net" where
  "verify_candidates env lib title_o author_o settings =
     (if falsy_str title_o \<and> falsy_str author_o then
        (\<lparr>attempted = False, matched = False, provider = None, match_confidence = None,
          canonical = None, v_notes = [''No title or author to verify''], debug = None\<rparr>, net0)
      else
        let provider_order = (if verify_provider_order settings \<noteq> []
                              then verify_provider_order settings
                              else [''google_books'', ''open_library'']);
            max_queries = min (max_verify_queries settings) 6
        in verify_loop env lib title_o author_o max_queries provider_order 0 net0)"

section \<open>Example inputs\<close>

definition default_settings :: ParseSettings where
  "default_settings =
     \<lparr>conf_min_word = 30, conf_min_line = 35, max_lines_considered = 80,
      merge_adjacent_lines_flag = True, junk_filter = True, verify = True,
      verify_provider_order = [''google_books'', ''open_library''], max_verify_queries = 6\<rparr>"

definition no_image :: OCRInput where
  "no_image = \<lparr>image = None, chunks = None\<rparr>"

text \<open>A cover of 1000 by 1000 pixels with a two-line title; the second line has no text of
  its own and is rebuilt from its word.\<close>

definition gatsby_ocr :: OCRInput where
  "gatsby_ocr =
     \<lparr>image = Some \<lparr>img_width = 1000, img_height = 1000\<rparr>,
      chunks = Some \<lparr>blocks = [\<lparr>paragraphs = [\<lparr>par_lines =
        [\<lparr>ln_bbox = [100, 100, 300, 150], ln_confidence = Some 90, ln_text = Some ''THE GREAT'',
          ln_words = []\<rparr>,
         \<lparr>ln_bbox = [100, 160, 300, 210], ln_confidence = None, ln_text = None,
          ln_words = [\<lparr>w_bbox = [100, 160, 300, 210], w_confidence = Some 80,
                       w_text = ''GATSBY''\<rparr>]\<rparr>]\<rparr>]\<rparr>]\<rparr>\<rparr>"

definition great_line :: LineRecord where
  "great_line =
     \<lparr>text = ''THE GREAT'', bbox = [100, 100, 300, 150], line_conf = Some 90, height = 50,
      center_x = 0.2, center_y = 0.125, word_count = 2, char_len = 9,
      tokens = [''THE'', ''GREAT''], caps_ratio = 1\<rparr>"

definition gatsby_line :: LineRecord where
  "gatsby_line =
     \<lparr>text = ''GATSBY'', bbox = [100, 160, 300, 210], line_conf = Some 80, height = 50,
      center_x = 0.2, center_y = 0.185, word_count = 1, char_len = 6,
      tokens = [''GATSBY''], caps_ratio = 1\<rparr>"

text \<open>An OCR line whose box has its corners the wrong way round.\<close>

definition reversed_ocr :: OCRInput where
  "reversed_ocr =
     \<lparr>image = Some \<lparr>img_width = 1000, img_height = 1000\<rparr>,
      chunks = Some \<lparr>blocks = [\<lparr>paragraphs = [\<lparr>par_lines =
        [\<lparr>ln_bbox = [300, 150, 100, 100], ln_confidence = Some 90, ln_text = Some ''Dune'',
          ln_words = []\<rparr>]\<rparr>]\<rparr>]\<rparr>\<rparr>"

definition reversed_line :: LineRecord where
  "reversed_line =
     \<lparr>text = ''Dune'', bbox = [300, 150, 100, 100], line_conf = Some 90, height = - 50,
      center_x = 0.2, center_y = 0.125, word_count = 1, char_len = 4,
      tokens = [''Dune''], caps_ratio = 0.25\<rparr>"

definition by_line :: LineRecord where
  "by_line =
     \<lparr>text = ''by George Orwell'', bbox = [300, 800, 700, 850], line_conf = Some 90, height = 50,
      center_x = 0.5, center_y = 0.825, word_count = 3, char_len = 16,
      tokens = [''by'', ''George'', ''Orwell''], caps_ratio = 1 / 7\<rparr>"


definition one_query_settings :: ParseSettings where
  "one_query_settings =
     \<lparr>conf_min_word = 30, conf_min_line = 35, max_lines_considered = 80,
      merge_adjacent_lines_flag = True, junk_filter = True, verify = True,
      verify_provider_order = [''google_books'', ''open_library''], max_verify_queries = 1\<rparr>"

text \<open>A cover that prints its title twice: large capitals in the upper third and a
  smaller line in the lower third.\<close>

definition dune_caps :: LineRecord where
  "dune_caps =
     \<lparr>text = ''DUNE'', bbox = [100, 100, 900, 300], line_conf = None, height = 200,
      center_x = 0.5, center_y = 0.2, word_count = 1, char_len = 4,
      tokens = [''DUNE''], caps_ratio = 1\<rparr>"

definition dune_small :: LineRecord where
  "dune_small =
     \<lparr>text = ''Dune'', bbox = [100, 700, 900, 800], line_conf = None, height = 100,
      center_x = 0.5, center_y = 0.75, word_count = 1, char_len = 4,
      tokens = [''Dune''], caps_ratio = 0.25\<rparr>"

text \<open>Three lines side by side.  The box of "Messiah" has an IoU of exactly 0.2 with the
  box of "by Frank Herbert" (an intersection of 100 by 100 in a union of 50000).\<close>

definition dune_top :: LineRecord where
  "dune_top =
     \<lparr>text = ''DUNE'', bbox = [420, 500, 700, 600], line_conf = Some 90, height = 100,
      center_x = 0.56, center_y = 0.55, word_count = 1, char_len = 4,
      tokens = [''DUNE''], caps_ratio = 1\<rparr>"

definition herbert_line :: LineRecord where
  "herbert_line =
     \<lparr>text = ''by Frank Herbert'', bbox = [400, 500, 700, 600], line_conf = None, height = 100,
      center_x = 0.55, center_y = 0.55, word_count = 3, char_len = 16,
      tokens = [''by'', ''Frank'', ''Herbert''], caps_ratio = 1 / 7\<rparr>"

text \<open>The same record once \<open>author_score\<close> has stripped the prefix.\<close>

definition herbert_stripped :: LineRecord where
  "herbert_stripped =
     \<lparr>text = ''Frank Herbert'', bbox = [400, 500, 700, 600], line_conf = None, height = 100,
      center_x = 0.55, center_y = 0.55, word_count = 3, char_len = 16,
      tokens = [''by'', ''Frank'', ''Herbert''], caps_ratio = 1 / 7\<rparr>"

definition messiah_line :: LineRecord where
  "messiah_line =
     \<lparr>text = ''Messiah'', bbox = [600, 500, 900, 600], line_conf = None, height = 100,
      center_x = 0.75, center_y = 0.55, word_count = 1, char_len = 7,
      tokens = [''Messiah''], caps_ratio = 1 / 7\<rparr>"









text \<open>A network on which every request times out, and catalogs that know one book.\<close>

definition dead_network :: catalogs where
  "dead_network =
     \<lparr>google_books = (\<lambda>n. TimeoutException ''timed out''),
      open_library = (\<lambda>n. TimeoutException ''timed out'')\<rparr>"

definition orwell_catalogs :: catalogs where
  "orwell_catalogs =
     \<lparr>google_books = (\<lambda>n. Response 200
        [\<lparr>gb_id = Some ''kotPYEqx7kMC'', gb_title = ''1984'',
          gb_authors = [Some ''George Orwell''],
          gb_identifiers = [(''ISBN_10'', ''0451524934''), (''ISBN_13'', ''9780451524935'')]\<rparr>]),
      open_library = (\<lambda>n. Response 200 [])\<rparr>"

text \<open>A third line further to the right, whose box overlaps the other two only a little.\<close>

definition children_line :: LineRecord where
  "children_line =
     \<lparr>text = ''Children'', bbox = [650, 500, 950, 600], line_conf = None, height = 100,
      center_x = 0.8, center_y = 0.55, word_count = 1, char_len = 8,
      tokens = [''Children''], caps_ratio = 1 / 8\<rparr>"

text \<open>The score lists of the three lines side by side, as the scoring loop leaves them.\<close>

definition shelf_titles :: "scored list" where
  "shelf_titles = [(dune_top, 433 / 500), (herbert_stripped, 39 / 50), (messiah_line, 69 / 100)]"

definition shelf_authors :: "scored list" where
  "shelf_authors = [(herbert_stripped, 4 / 5), (dune_top, 16 / 25), (messiah_line, 27 / 50)]"

section \<open>Views used in the statements\<close>

text \<open>The pick without the candidate objects, and the choice and warnings of a result.\<close>

definition picked ::
  "py_error + pick
     \<Rightarrow> py_error + (scored list \<times> scored list \<times> LineRecord option \<times> LineRecord option)" where
  "picked p =
     (case p of Inl e \<Rightarrow> Inl e | Inr (tts, tas, tcs, acs, bt, ba) \<Rightarrow> Inr (tts, tas, bt, ba))"

definition chosen ::
  "py_error + RankResult \<Rightarrow> py_error + (string option \<times> string option \<times> string list)" where
  "chosen p = (case p of Inl e \<Rightarrow> Inl e | Inr r \<Rightarrow> Inr (title r, author r, warnings r))"

text \<open>Every request is answered (none raises), and no hit has \<open>null\<close> as its first author.\<close>

definition well_answered :: "('i \<Rightarrow> best) \<Rightarrow> (nat \<Rightarrow> 'i http_result) \<Rightarrow> bool" where
  "well_answered mk env =
     (\<forall>n. case env n of
            Response status items \<Rightarrow> list_all (\<lambda>i. b_author (mk i) \<noteq> None) items
          | InvalidJson e \<Rightarrow> True
          | TimeoutException e \<Rightarrow> False
          | OtherException e \<Rightarrow> False)"

text \<open>The locals of a provider that started at request number \<open>r0\<close> with budget \<open>mq\<close>: every
  request so far is counted, the count is within the budget, and the best match has an
  author.\<close>

definition counted :: "nat \<Rightarrow> int \<Rightarrow> search \<times> net \<Rightarrow> bool" where
  "counted r0 mq p =
     (case p of (ss, st) \<Rightarrow>
        0 \<le> queries_made ss \<and> queries_made ss \<le> max 0 mq \<and>
        int (requests st) = int r0 + queries_made ss \<and>
        (case best_match ss of None \<Rightarrow> True | Some b \<Rightarrow> b_author b \<noteq> None))"

text \<open>What a provider call that raises nothing and counts every request returns.\<close>

definition charged :: "int \<Rightarrow> net \<Rightarrow> (py_error + provider_result) \<times> net \<Rightarrow> bool" where
  "charged mq st out =
     (case out of
        (Inr r, st') \<Rightarrow> 0 \<le> r_queries_made r \<and> r_queries_made r \<le> max 0 mq \<and>
                         int (requests st') = int (requests st) + r_queries_made r
      | (Inl e, st') \<Rightarrow> False)"


section \<open>Properties\<close>

subsection \<open>Auxiliary facts\<close>

lemma snd_author_score:
  "snd (author_score line max_height image_height) =
     (if has_by_prefix (text line) then line\<lparr>text := strip_by_prefix (text line)\<rparr> else line)"
  by (simp only: author_score_def Let_def snd_conv)

lemma rstrip_prefix: "\<exists>zs. xs = rev (dropWhile P (rev xs)) @ zs"
  by (metis rev_append rev_rev_ident takeWhile_dropWhile_id)

lemma lstrip_rstrip:
  "dropWhile P (rev (dropWhile P (rev (dropWhile P xs)))) = rev (dropWhile P (rev (dropWhile P xs)))"
proof (cases "rev (dropWhile P (rev (dropWhile P xs))) = []")
  case True
  show ?thesis unfolding True by simp
next
  case False
  obtain zs where z: "dropWhile P xs = rev (dropWhile P (rev (dropWhile P xs))) @ zs"
    using rstrip_prefix by blast
  have "hd (rev (dropWhile P (rev (dropWhile P xs)))) = hd (dropWhile P xs)"
    using False z by (metis hd_append2)
  moreover have "dropWhile P xs \<noteq> []" using False z by (metis append_is_Nil_conv)
  ultimately have "\<not> P (hd (rev (dropWhile P (rev (dropWhile P xs)))))"
    by (metis hd_dropWhile)
  then show ?thesis by (simp add: dropWhile_eq_self_iff)
qed

lemma strip_strip: "strip (strip t) = strip t"
  by (simp add: strip_def lstrip_rstrip)

lemma normalize_line_Some:
  assumes "normalize_line iw ih l = Some r"
  shows "text r \<noteq> [] \<and> strip (text r) = text r \<and> 4 \<le> length (bbox r)"
proof -
  from assms obtain t where t: "strip t \<noteq> []" "\<not> length (ln_bbox l) < 4"
    and r: "text r = strip t" "bbox r = ln_bbox l"
    unfolding normalize_line_def Let_def
    by (auto split: option.splits if_splits)
  then show ?thesis by (simp add: strip_strip)
qed

lemma map_filter_set: "r \<in> set (List.map_filter f xs) \<Longrightarrow> \<exists>x. f x = Some r"
  by (auto simp: List.map_filter_def)

lemma normalize_gatsby: "normalize_ocr gatsby_ocr default_settings = [great_line, gatsby_line]"
  by code_simp




















lemma title_alternative_find:
  "title_alternative xs a t =
     (case find (\<lambda>x. calculate_bbox_iou (bbox (fst x)) (bbox a) < 0.2) xs of
        None \<Rightarrow> t | Some x \<Rightarrow> fst x)"
  by (induction xs a t rule: title_alternative.induct) simp_all

lemma author_alternative_find:
  "author_alternative xs t a =
     (case find (\<lambda>x. calculate_bbox_iou (bbox t) (bbox (fst x)) < 0.2) xs of
        None \<Rightarrow> a | Some x \<Rightarrow> fst x)"
  by (induction xs t a rule: author_alternative.induct) simp_all

lemma top5_score_order: "sorted (map (\<lambda>x. - snd x) (top5 scores))"
  unfolding top5_def by (simp add: take_map [symmetric] sorted_wrt_take del: take_map)

text \<open>A confidence of 0 counts as missing when two confidences are merged.\<close>

lemma merged_conf_zero: "merged_conf (Some 0) (Some 80) = Some 80"
  by (simp add: merged_conf_def truthy_conf_def)

text \<open>The author search runs although the title search has found a title that does not
  overlap the author: "DUNE" and "Frank Herbert" overlap, "Children" replaces "DUNE" as
  title (IoU 1/11 with "Frank Herbert"), and then "DUNE" replaces "Frank Herbert" as
  author.\<close>

lemma overlap_guard_repeats_author_search:
  "calculate_bbox_iou (bbox children_line) (bbox herbert_stripped) = 1 / 11 \<and>
   chosen (rank_candidates [dune_top, herbert_line, children_line] no_image default_settings) =
     Inr (Some ''Children'', Some ''DUNE'', [])"
  by code_simp

lemma provider_return_matched:
  assumes "provider_return ss = Inr r" and "r_matched r"
  shows "r_canonical r \<noteq> None \<and> (\<exists>m. r_match_confidence r = Some m \<and> 0.6 \<le> m)"
  using assms
  by (auto simp: provider_return_def bind_e_def split: option.splits if_splits sum.splits)

lemma verify_google_books_matched:
  assumes "verify_google_books env lib t a mq st = (Inr r, st')" and "r_matched r"
  shows "r_canonical r \<noteq> None \<and> (\<exists>m. r_match_confidence r = Some m \<and> 0.6 \<le> m)"
proof (cases "falsy_str t \<and> falsy_str a")
  case True
  with assms show ?thesis by (auto simp: verify_google_books_def no_title_or_author_def)
next
  case False
  obtain b ss st1 where s: "gb_strict env lib t a mq (search0, st) = (b, ss, st1)"
    by (cases "gb_strict env lib t a mq (search0, st)") auto
  show ?thesis
  proof (cases b)
    case True
    with assms False s show ?thesis by (auto simp: verify_google_books_def)
  next
    case nb: False
    obtain ss' st2 where t: "gb_title_only env lib t a mq (ss, st1) = (ss', st2)"
      by (cases "gb_title_only env lib t a mq (ss, st1)") auto
    with assms False s nb have "provider_return ss' = Inr r"
      by (auto simp: verify_google_books_def)
    then show ?thesis using assms(2) by (rule provider_return_matched)
  qed
qed

lemma verify_open_library_matched:
  assumes "verify_open_library env lib t a mq st = (Inr r, st')" and "r_matched r"
  shows "r_canonical r \<noteq> None \<and> (\<exists>m. r_match_confidence r = Some m \<and> 0.6 \<le> m)"
proof (cases "falsy_str t \<and> falsy_str a")
  case True
  with assms show ?thesis by (auto simp: verify_open_library_def no_title_or_author_def)
next
  case False
  obtain ss st1 where s: "ol_strict env lib t a mq (search0, st) = (ss, st1)"
    by (cases "ol_strict env lib t a mq (search0, st)") auto
  obtain ss' st2 where t: "ol_title_only env lib t a mq (ss, st1) = (ss', st2)"
    by (cases "ol_title_only env lib t a mq (ss, st1)") auto
  with assms False s have "provider_return ss' = Inr r"
    by (auto simp: verify_open_library_def)
  then show ?thesis using assms(2) by (rule provider_return_matched)
qed

lemma after_provider_matched:
  assumes "after_provider p qm (out, st) = (Inl v, st')"
    and "\<And>r. out = Inr r \<Longrightarrow> r_matched r \<Longrightarrow>
           r_canonical r \<noteq> None \<and> (\<exists>m. r_match_confidence r = Some m \<and> 0.6 \<le> m)"
  shows "canonical v \<noteq> None \<and> (\<exists>m. match_confidence v = Some m \<and> 0.6 \<le> m)"
proof (cases out)
  case (Inl e)
  with assms(1) show ?thesis by (simp add: after_provider_def)
next
  case (Inr r)
  with assms(1) have m: "r_matched r"
    and v: "canonical v = r_canonical r"
      "match_confidence v = Some (case r_match_confidence r of None \<Rightarrow> 0 | Some c \<Rightarrow> c)"
    by (auto simp: after_provider_def split: if_splits)
  from assms(2) [OF Inr m] v show ?thesis by auto
qed

lemma verify_loop_matched:
  "verify_loop env lib t a mq ps qm st = (v, st') \<Longrightarrow> matched v \<Longrightarrow>
     canonical v \<noteq> None \<and> (\<exists>m. match_confidence v = Some m \<and> 0.6 \<le> m)"
proof (induction env lib t a mq ps qm st rule: verify_loop.induct)
  case (1 env lib t a mq qm st)
  then show ?case by (auto simp: no_match_def)
next
  case (2 env lib t a mq p rest qm st)
  show ?case
  proof (cases "qm \<ge> mq")
    case True
    with "2.prems" show ?thesis by (auto simp: no_match_def)
  next
    case budget: False
    show ?thesis
    proof (cases "p = ''google_books''")
      case True
      obtain out st1 where o: "verify_google_books (google_books env) lib t a (mq - qm) st = (out, st1)"
        by (cases "verify_google_books (google_books env) lib t a (mq - qm) st") auto
      obtain res st2 where r: "after_provider p qm (out, st1) = (res, st2)"
        by (cases "after_provider p qm (out, st1)") auto
      show ?thesis
      proof (cases res)
        case (Inl v')
        with "2.prems"(1) budget True o r have "v = v'" by simp
        moreover have "canonical v' \<noteq> None \<and> (\<exists>m. match_confidence v' = Some m \<and> 0.6 \<le> m)"
          using r Inl verify_google_books_matched o
          by (intro after_provider_matched [of p qm out st1 v' st2]) auto
        ultimately show ?thesis by simp
      next
        case (Inr qm')
        with "2.prems"(1) budget True o r
        have "verify_loop env lib t a mq rest qm' st2 = (v, st')" by simp
        with "2.IH"(1) [OF _ True _ _ _ "2.prems"(2)] budget o r Inr show ?thesis
          by auto
      qed
    next
      case ng: False
      show ?thesis
      proof (cases "p = ''open_library''")
        case True
        obtain out st1 where o: "verify_open_library (open_library env) lib t a (mq - qm) st = (out, st1)"
          by (cases "verify_open_library (open_library env) lib t a (mq - qm) st") auto
        obtain res st2 where r: "after_provider p qm (out, st1) = (res, st2)"
          by (cases "after_provider p qm (out, st1)") auto
        show ?thesis
        proof (cases res)
          case (Inl v')
          with "2.prems"(1) budget ng True o r have "v = v'" by simp
          moreover have "canonical v' \<noteq> None \<and> (\<exists>m. match_confidence v' = Some m \<and> 0.6 \<le> m)"
            using r Inl verify_open_library_matched o
            by (intro after_provider_matched [of p qm out st1 v' st2]) auto
          ultimately show ?thesis by simp
        next
          case (Inr qm')
          with "2.prems"(1) budget ng True o r
          have "verify_loop env lib t a mq rest qm' st2 = (v, st')" by simp
          with "2.IH"(2) [OF _ ng True _ _ _ "2.prems"(2)] budget o r Inr show ?thesis
            by auto
        qed
      next
        case False
        with "2.prems" budget ng "2.IH"(3) show ?thesis by simp
      qed
    qed
  qed
qed

text \<open>When every request is answered and no provider raises, every request is counted
  and the requests of a call stay within the budget.\<close>

lemma scan_hits_counted:
  assumes "list_all (\<lambda>i. b_author (mk i) \<noteq> None) items" and "counted r0 mq (ss, st)"
  shows "counted r0 mq (scan_hits pname mk score_of items (ss, st))"
  using assms
proof (induction items arbitrary: ss st)
  case Nil
  then show ?case by simp
next
  case (Cons item items)
  let ?sc = "score_of (mk item)"
  let ?st = "st\<lparr>top_hits := top_hits st @
                  [\<lparr>h_provider = pname, h_title = b_title (mk item), h_author = b_author (mk item),
                    h_score = ?sc\<rparr>]\<rparr>"
  let ?ss = "if ?sc > best_score ss
             then ss\<lparr>best_score := ?sc, best_match := Some ((mk item)\<lparr>b_score := ?sc\<rparr>)\<rparr> else ss"
  have "counted r0 mq (?ss, ?st)"
    using Cons.prems by (auto simp: counted_def split: option.splits)
  moreover have "list_all (\<lambda>i. b_author (mk i) \<noteq> None) items"
    using Cons.prems(1) by simp
  ultimately have "counted r0 mq (scan_hits pname mk score_of items (?ss, ?st))"
    by (rule Cons.IH [rotated])
  then show ?case by (simp add: Let_def)
qed

lemma count_query_counted:
  assumes "counted r0 mq (ss, st)" and "queries_made ss < mq"
  shows "counted r0 mq (count_query pname q ty (ss, sent st))"
  using assms by (auto simp: counted_def count_query_def sent_def)

lemma add_note_counted:
  "counted r0 mq (ss, st) \<Longrightarrow> counted r0 mq (add_note n ss, st)"
  by (auto simp: counted_def add_note_def)

lemma gb_strict_counted:
  assumes w: "well_answered gb_best env" and c: "counted r0 mq (ss, st)"
  shows "counted r0 mq (snd (gb_strict env lib t a mq (ss, st)))"
proof (cases "\<not> falsy_str t \<and> \<not> falsy_str a \<and> queries_made ss < mq")
  case False
  with c show ?thesis by (auto simp: gb_strict_def)
next
  case True
  then have b: "queries_made ss < mq" by simp
  let ?q = "the t @ '' '' @ the a"
  obtain ss1 st1 where q: "count_query ''google_books'' ?q ''strict'' (ss, sent st) = (ss1, st1)"
    by (cases "count_query ''google_books'' ?q ''strict'' (ss, sent st)") auto
  have c1: "counted r0 mq (ss1, st1)"
    using count_query_counted [OF c b, of "''google_books''" ?q "''strict''"] q by simp
  from w have "case env (requests st) of
            Response status items \<Rightarrow> list_all (\<lambda>i. b_author (gb_best i) \<noteq> None) items
          | InvalidJson e \<Rightarrow> True | TimeoutException e \<Rightarrow> False | OtherException e \<Rightarrow> False"
    unfolding well_answered_def by blast
  then show ?thesis
  proof (cases "env (requests st)")
    case (Response status items)
    assume "case env (requests st) of
            Response status items \<Rightarrow> list_all (\<lambda>i. b_author (gb_best i) \<noteq> None) items
          | InvalidJson e \<Rightarrow> True | TimeoutException e \<Rightarrow> False | OtherException e \<Rightarrow> False"
    with Response have l: "list_all (\<lambda>i. b_author (gb_best i) \<noteq> None) items" by simp
    show ?thesis
      using True Response q c1 scan_hits_counted [OF l c1] add_note_counted [OF c1]
      by (simp add: gb_strict_def Let_def split: prod.splits)
  next
    case (InvalidJson e)
    then show ?thesis
      using True q add_note_counted [OF c1] by (simp add: gb_strict_def Let_def)
  qed simp_all
qed

lemma gb_title_only_counted:
  assumes w: "well_answered gb_best env" and c: "counted r0 mq (ss, st)"
  shows "counted r0 mq (gb_title_only env lib t a mq (ss, st))"
proof (cases "best_score ss < 0.7 \<and> \<not> falsy_str t \<and> queries_made ss < mq")
  case False
  with c show ?thesis by (auto simp: gb_title_only_def)
next
  case True
  then have b: "queries_made ss < mq" by simp
  obtain ss1 st1 where q: "count_query ''google_books'' (the t) ''title_only'' (ss, sent st) = (ss1, st1)"
    by (cases "count_query ''google_books'' (the t) ''title_only'' (ss, sent st)") auto
  have c1: "counted r0 mq (ss1, st1)"
    using count_query_counted [OF c b, of "''google_books''" "the t" "''title_only''"] q by simp
  from w have "case env (requests st) of
            Response status items \<Rightarrow> list_all (\<lambda>i. b_author (gb_best i) \<noteq> None) items
          | InvalidJson e \<Rightarrow> True | TimeoutException e \<Rightarrow> False | OtherException e \<Rightarrow> False"
    unfolding well_answered_def by blast
  then show ?thesis
  proof (cases "env (requests st)")
    case (Response status items)
    assume "case env (requests st) of
            Response status items \<Rightarrow> list_all (\<lambda>i. b_author (gb_best i) \<noteq> None) items
          | InvalidJson e \<Rightarrow> True | TimeoutException e \<Rightarrow> False | OtherException e \<Rightarrow> False"
    with Response have l: "list_all (\<lambda>i. b_author (gb_best i) \<noteq> None) items" by simp
    show ?thesis
      using True Response q c1 scan_hits_counted [OF l c1]
      by (simp add: gb_title_only_def)
  next
    case (InvalidJson e)
    then show ?thesis
      using True q add_note_counted [OF c1] by (simp add: gb_title_only_def)
  qed simp_all
qed

lemma ol_strict_counted:
  assumes w: "well_answered ol_best env" and c: "counted r0 mq (ss, st)"
  shows "counted r0 mq (ol_strict env lib t a mq (ss, st))"
proof (cases "\<not> falsy_str t \<and> \<not> falsy_str a \<and> queries_made ss < mq")
  case False
  with c show ?thesis by (auto simp: ol_strict_def)
next
  case True
  then have b: "queries_made ss < mq" by simp
  let ?q = "the t @ '' '' @ the a"
  obtain ss1 st1 where q: "count_query ''open_library'' ?q ''strict'' (ss, sent st) = (ss1, st1)"
    by (cases "count_query ''open_library'' ?q ''strict'' (ss, sent st)") auto
  have c1: "counted r0 mq (ss1, st1)"
    using count_query_counted [OF c b, of "''open_library''" ?q "''strict''"] q by simp
  from w have "case env (requests st) of
            Response status items \<Rightarrow> list_all (\<lambda>i. b_author (ol_best i) \<noteq> None) items
          | InvalidJson e \<Rightarrow> True | TimeoutException e \<Rightarrow> False | OtherException e \<Rightarrow> False"
    unfolding well_answered_def by blast
  then show ?thesis
  proof (cases "env (requests st)")
    case (Response status items)
    assume "case env (requests st) of
            Response status items \<Rightarrow> list_all (\<lambda>i. b_author (ol_best i) \<noteq> None) items
          | InvalidJson e \<Rightarrow> True | TimeoutException e \<Rightarrow> False | OtherException e \<Rightarrow> False"
    with Response have l: "list_all (\<lambda>i. b_author (ol_best i) \<noteq> None) items" by simp
    show ?thesis
      using True Response q c1 scan_hits_counted [OF l c1] add_note_counted [OF c1]
      by (simp add: ol_strict_def Let_def)
  next
    case (InvalidJson e)
    then show ?thesis
      using True q add_note_counted [OF c1] by (simp add: ol_strict_def Let_def)
  qed simp_all
qed

lemma ol_title_only_counted:
  assumes w: "well_answered ol_best env" and c: "counted r0 mq (ss, st)"
  shows "counted r0 mq (ol_title_only env lib t a mq (ss, st))"
proof (cases "best_score ss < 0.7 \<and> \<not> falsy_str t \<and> queries_made ss < mq")
  case False
  with c show ?thesis by (auto simp: ol_title_only_def)
next
  case True
  then have b: "queries_made ss < mq" by simp
  obtain ss1 st1 where q: "count_query ''open_library'' (the t) ''title_only'' (ss, sent st) = (ss1, st1)"
    by (cases "count_query ''open_library'' (the t) ''title_only'' (ss, sent st)") auto
  have c1: "counted r0 mq (ss1, st1)"
    using count_query_counted [OF c b, of "''open_library''" "the t" "''title_only''"] q by simp
  from w have "case env (requests st) of
            Response status items \<Rightarrow> list_all (\<lambda>i. b_author (ol_best i) \<noteq> None) items
          | InvalidJson e \<Rightarrow> True | TimeoutException e \<Rightarrow> False | OtherException e \<Rightarrow> False"
    unfolding well_answered_def by blast
  then show ?thesis
  proof (cases "env (requests st)")
    case (Response status items)
    assume "case env (requests st) of
            Response status items \<Rightarrow> list_all (\<lambda>i. b_author (ol_best i) \<noteq> None) items
          | InvalidJson e \<Rightarrow> True | TimeoutException e \<Rightarrow> False | OtherException e \<Rightarrow> False"
    with Response have l: "list_all (\<lambda>i. b_author (ol_best i) \<noteq> None) items" by simp
    show ?thesis
      using True Response q c1 scan_hits_counted [OF l c1]
      by (simp add: ol_title_only_def)
  next
    case (InvalidJson e)
    then show ?thesis
      using True q add_note_counted [OF c1] by (simp add: ol_title_only_def)
  qed simp_all
qed

lemma counted_search0: "counted (requests st) mq (search0, st)"
  by (simp add: counted_def search0_def)

lemma provider_return_counted:
  assumes "counted r0 mq (ss, st)"
  shows "\<exists>r. provider_return ss = Inr r \<and> r_queries_made r = queries_made ss"
  using assms
  by (auto simp: counted_def provider_return_def make_canonical_def bind_e_def
      split: option.splits)

lemma verify_google_books_charged:
  assumes w: "well_answered gb_best env"
  shows "charged mq st (verify_google_books env lib t a mq st)"
proof (cases "falsy_str t \<and> falsy_str a")
  case True
  then show ?thesis
    by (simp add: verify_google_books_def charged_def no_title_or_author_def)
next
  case False
  obtain b ss st1 where s: "gb_strict env lib t a mq (search0, st) = (b, ss, st1)"
    by (cases "gb_strict env lib t a mq (search0, st)") auto
  have c1: "counted (requests st) mq (ss, st1)"
    using gb_strict_counted [OF w counted_search0 [of st mq], where lib = lib and t = t and a = a] s
    by simp
  show ?thesis
  proof (cases b)
    case True
    with False s c1 show ?thesis
      by (auto simp: verify_google_books_def charged_def counted_def)
  next
    case nb: False
    obtain ss' st2 where g: "gb_title_only env lib t a mq (ss, st1) = (ss', st2)"
      by (cases "gb_title_only env lib t a mq (ss, st1)") auto
    have c2: "counted (requests st) mq (ss', st2)"
      using gb_title_only_counted [OF w c1, where lib = lib and t = t and a = a] g by simp
    from provider_return_counted [OF c2] obtain r
      where "provider_return ss' = Inr r" "r_queries_made r = queries_made ss'" by blast
    with False s nb g c2 show ?thesis
      by (auto simp: verify_google_books_def charged_def counted_def)
  qed
qed

lemma verify_open_library_charged:
  assumes w: "well_answered ol_best env"
  shows "charged mq st (verify_open_library env lib t a mq st)"
proof (cases "falsy_str t \<and> falsy_str a")
  case True
  then show ?thesis
    by (simp add: verify_open_library_def charged_def no_title_or_author_def)
next
  case False
  obtain ss st1 where s: "ol_strict env lib t a mq (search0, st) = (ss, st1)"
    by (cases "ol_strict env lib t a mq (search0, st)") auto
  have c1: "counted (requests st) mq (ss, st1)"
    using ol_strict_counted [OF w counted_search0 [of st mq], where lib = lib and t = t and a = a] s
    by simp
  obtain ss' st2 where g: "ol_title_only env lib t a mq (ss, st1) = (ss', st2)"
    by (cases "ol_title_only env lib t a mq (ss, st1)") auto
  have c2: "counted (requests st) mq (ss', st2)"
    using ol_title_only_counted [OF w c1, where lib = lib and t = t and a = a] g by simp
  from provider_return_counted [OF c2] obtain r
    where "provider_return ss' = Inr r" "r_queries_made r = queries_made ss'" by blast
  with False s g c2 show ?thesis
    by (auto simp: verify_open_library_def charged_def counted_def)
qed

lemma after_provider_charged:
  assumes c: "charged (mq - qm) st out" and q: "int (requests st) = qm" "0 \<le> qm" "qm < mq"
    and a: "after_provider p qm out = (res, st')"
  shows "int (requests st') \<le> mq \<and>
         (case res of Inl v \<Rightarrow> True | Inr qm' \<Rightarrow> int (requests st') = qm' \<and> 0 \<le> qm')"
  using assms
  by (auto simp: charged_def after_provider_def split: sum.splits if_splits prod.splits)

lemma verify_loop_within_budget:
  "verify_loop env lib t a mq ps qm st = (v, st') \<Longrightarrow>
     well_answered gb_best (google_books env) \<Longrightarrow> well_answered ol_best (open_library env) \<Longrightarrow>
     int (requests st) = qm \<Longrightarrow> 0 \<le> qm \<Longrightarrow> qm \<le> max 0 mq \<Longrightarrow>
     int (requests st') \<le> max 0 mq"
proof (induction env lib t a mq ps qm st rule: verify_loop.induct)
  case (1 env lib t a mq qm st)
  then show ?case by auto
next
  case (2 env lib t a mq p rest qm st)
  note run = "2.prems"(1) and wg = "2.prems"(2) and wo = "2.prems"(3)
    and rq = "2.prems"(4) and q0 = "2.prems"(5) and qb = "2.prems"(6)
  show ?case
  proof (cases "qm \<ge> mq")
    case True
    with run rq qb show ?thesis by auto
  next
    case budget: False
    then have lt: "qm < mq" by simp
    show ?thesis
    proof (cases "p = ''google_books''")
      case True
      let ?out = "verify_google_books (google_books env) lib t a (mq - qm) st"
      obtain res st2 where r: "after_provider p qm ?out = (res, st2)"
        by (cases "after_provider p qm ?out") auto
      have ch: "charged (mq - qm) st ?out"
        using wg by (rule verify_google_books_charged)
      note ap = after_provider_charged [OF ch rq q0 lt r]
      show ?thesis
      proof (cases res)
        case (Inl v')
        with run budget True r have "st' = st2" by simp
        with ap lt show ?thesis by simp
      next
        case (Inr qm')
        with run budget True r
        have l: "verify_loop env lib t a mq rest qm' st2 = (v, st')" by simp
        from ap Inr have i: "int (requests st2) = qm'" "0 \<le> qm'" "qm' \<le> max 0 mq"
          by auto
        have s: "(res, st2) = after_provider p qm ?out" using r by simp
        from "2.IH"(1) [OF budget True s Inr l wg wo i]
        show ?thesis .
      qed
    next
      case ng: False
      show ?thesis
      proof (cases "p = ''open_library''")
        case True
        let ?out = "verify_open_library (open_library env) lib t a (mq - qm) st"
        obtain res st2 where r: "after_provider p qm ?out = (res, st2)"
          by (cases "after_provider p qm ?out") auto
        have ch: "charged (mq - qm) st ?out"
          using wo by (rule verify_open_library_charged)
        note ap = after_provider_charged [OF ch rq q0 lt r]
        show ?thesis
        proof (cases res)
          case (Inl v')
          with run budget ng True r have "st' = st2" by simp
          with ap lt show ?thesis by simp
        next
          case (Inr qm')
          with run budget ng True r
          have l: "verify_loop env lib t a mq rest qm' st2 = (v, st')" by simp
          from ap Inr have i: "int (requests st2) = qm'" "0 \<le> qm'" "qm' \<le> max 0 mq"
            by auto
          have s: "(res, st2) = after_provider p qm ?out" using r by simp
          from "2.IH"(2) [OF budget ng True s Inr l wg wo i]
          show ?thesis .
        qed
      next
        case False
        with run budget ng have "verify_loop env lib t a mq rest qm st = (v, st')" by simp
        from "2.IH"(3) [OF budget ng False this wg wo rq q0 qb] show ?thesis .
      qed
    qed
  qed
qed

lemma verify_within_budget_when_answered:
  assumes "well_answered gb_best (google_books env)"
    and "well_answered ol_best (open_library env)"
  shows "int (requests (snd (verify_candidates env lib t a settings)))
           \<le> max 0 (min (max_verify_queries settings) 6)"
proof (cases "falsy_str t \<and> falsy_str a")
  case True
  then show ?thesis by (simp add: verify_candidates_def net0_def)
next
  case False
  obtain v st' where v: "verify_candidates env lib t a settings = (v, st')"
    by (cases "verify_candidates env lib t a settings") auto
  have "verify_candidates env lib t a settings =
      verify_loop env lib t a (min (max_verify_queries settings) 6)
        (if verify_provider_order settings \<noteq> [] then verify_provider_order settings
         else [''google_books'', ''open_library'']) 0 net0"
    unfolding verify_candidates_def Let_def using False by (simp only: if_False)
  with v have "verify_loop env lib t a (min (max_verify_queries settings) 6)
        (if verify_provider_order settings \<noteq> [] then verify_provider_order settings
         else [''google_books'', ''open_library'']) 0 net0 = (v, st')"
    by simp
  from verify_loop_within_budget [OF this assms] v show ?thesis
    by (simp add: net0_def)
qed

subsection \<open>The normalizer\<close>

text \<open>
  C8, as the code has it.  Every record returned by \<open>normalize_ocr\<close> has a non-empty,
  trimmed text and a box of at least four coordinates, and when \<open>max_lines_considered\<close> is
  positive the result is no longer than it.  Nothing is promised about the order of the
  coordinates: the normalizer tests the length of a box only.
\<close>

theorem normalize_ocr_wellformed:
  "(\<forall>r \<in> set (normalize_ocr ocr settings).
      text r \<noteq> [] \<and> strip (text r) = text r \<and> 4 \<le> length (bbox r)) \<and>
   (0 < max_lines_considered settings \<longrightarrow>
      int (length (normalize_ocr ocr settings)) \<le> max_lines_considered settings)"
proof (rule conjI)
  show "\<forall>r \<in> set (normalize_ocr ocr settings).
      text r \<noteq> [] \<and> strip (text r) = text r \<and> 4 \<le> length (bbox r)"
  proof
    fix r assume "r \<in> set (normalize_ocr ocr settings)"
    then have "r \<in> set (List.map_filter
        (normalize_line (case image ocr of Some im \<Rightarrow> img_width im | None \<Rightarrow> 1000)
                        (case image ocr of Some im \<Rightarrow> img_height im | None \<Rightarrow> 1000)) (ocr_lines ocr))"
      unfolding normalize_ocr_def Let_def by (auto split: if_splits dest: in_set_takeD)
    then obtain l iw ih where "normalize_line iw ih l = Some r"
      using map_filter_set by fast
    then show "text r \<noteq> [] \<and> strip (text r) = text r \<and> 4 \<le> length (bbox r)"
      by (rule normalize_line_Some)
  qed
  show "0 < max_lines_considered settings \<longrightarrow>
      int (length (normalize_ocr ocr settings)) \<le> max_lines_considered settings"
    unfolding normalize_ocr_def Let_def by (auto simp: min_def)
qed

text \<open>The theorem at the two-line cover, where the limit is 80.\<close>

theorem normalize_ocr_wellformed_witness:
  "great_line \<in> set (normalize_ocr gatsby_ocr default_settings) \<and>
   text great_line \<noteq> [] \<and> strip (text great_line) = text great_line \<and>
   4 \<le> length (bbox great_line) \<and>
   0 < max_lines_considered default_settings \<and>
   int (length (normalize_ocr gatsby_ocr default_settings)) \<le> max_lines_considered default_settings"
proof -
  have m: "great_line \<in> set (normalize_ocr gatsby_ocr default_settings)"
    by (simp add: normalize_gatsby)
  have p: "0 < max_lines_considered default_settings"
    by (simp add: default_settings_def)
  from normalize_ocr_wellformed [of gatsby_ocr default_settings] m p show ?thesis
    by blast
qed

text \<open>C8 as stated fails: a line whose box runs from \<open>(300, 150)\<close> to \<open>(100, 100)\<close> is kept,
  with \<open>x2 < x1\<close>, \<open>y2 < y1\<close> and a negative height.\<close>

theorem normalize_ocr_keeps_reversed_box:
  "normalize_ocr reversed_ocr default_settings = [reversed_line] \<and>
   bbox reversed_line ! 2 < bbox reversed_line ! 0 \<and>
   bbox reversed_line ! 3 < bbox reversed_line ! 1"
  by code_simp

subsection \<open>Scoring and the line record\<close>

text \<open>
  C9, as the code has it.  \<open>author_score\<close> leaves the record as it found it when the text
  has no "by" prefix; with the prefix it overwrites the text by the stripped text and
  leaves every other field alone.  (\<open>title_score\<close> assigns to nothing: it returns a number
  only.)
\<close>

theorem author_score_frame:
  "snd (author_score line max_height image_height) =
     (if has_by_prefix (text line) then line\<lparr>text := strip_by_prefix (text line)\<rparr> else line)"
  by (rule snd_author_score)

text \<open>C9 as stated fails: scoring the line "by George Orwell" as an author changes its
  text to "George Orwell".\<close>

theorem author_score_mutates_text:
  "snd (author_score by_line 100 1000) \<noteq> by_line \<and>
   text (snd (author_score by_line 100 1000)) = ''George Orwell''"
  by code_simp

subsection \<open>The merge pass\<close>

text \<open>
  C6 at the two lines of the cover above, which the normalizer returns as \<open>great_line\<close> and
  \<open>gatsby_line\<close> (centres 0.2 of the width).  The merged record has the union box
  \<open>[100, 100, 300, 210]\<close>, the mean confidence and the joined tokens, but its height is
  the larger of the two heights, 50, where the union box is 110 high, and its centre is
  \<open>(200, 155)\<close> in pixels, where the record's centres are fractions of the image size.
\<close>

theorem merge_keeps_pixel_centre_and_max_height:
  "merge_adjacent_lines [great_line, gatsby_line] =
     Inr [\<lparr>text = ''THE GREAT GATSBY'', bbox = [100, 100, 300, 210], line_conf = Some 85,
           height = 50, center_x = 200, center_y = 155, word_count = 3, char_len = 16,
           tokens = [''THE'', ''GREAT'', ''GATSBY''], caps_ratio = 1\<rparr>]"
  by code_simp



subsection \<open>Ranking: the empty candidate lists\<close>



subsection \<open>Ranking: best-pick resolution\<close>

text \<open>
  C1 on a cover that prints its title twice, "DUNE" and "Dune".  The first line wins the
  title ranking (0.74 against 0.49), the second the author ranking (0.69 against 0.64).
  The identity guard sees equal texts and replaces the author by its runner-up, which is
  the first line again; the overlap guard then moves the title to the second line.  The
  function returns title "Dune" and author "DUNE", which are equal without regard to
  case.
\<close>

theorem rank_returns_equal_title_and_author:
  "chosen (rank_candidates [dune_caps, dune_small] no_image default_settings) =
     Inr (Some ''Dune'', Some ''DUNE'', []) \<and>
   lower ''Dune'' = lower ''DUNE''"
  by code_simp

text \<open>
  C2, as the code has it.  When both are chosen and their boxes have an IoU above 0.2,
  the title becomes the first title runner-up whose box has an IoU strictly below 0.2
  with the author's box, and stays as it is when there is none; with an IoU of at most
  0.2 nothing changes.  The author is either kept or replaced by the first author
  runner-up whose IoU with the (possibly new) title is strictly below 0.2.  The runner-ups
  are in score order (\<open>top5_score_order\<close>).
\<close>

theorem overlap_guard_search:
  "fst (overlap_guard top_title top_author (Some t) (Some a)) =
     Some (if calculate_bbox_iou (bbox t) (bbox a) > 0.2
           then (case find (\<lambda>x. calculate_bbox_iou (bbox (fst x)) (bbox a) < 0.2)
                        (drop 1 top_title) of
                   None \<Rightarrow> t | Some x \<Rightarrow> fst x)
           else t) \<and>
   (snd (overlap_guard top_title top_author (Some t) (Some a)) = Some a \<or>
    (calculate_bbox_iou (bbox t) (bbox a) > 0.2 \<and>
     (\<exists>x. find (\<lambda>x. calculate_bbox_iou
                       (bbox (the (fst (overlap_guard top_title top_author (Some t) (Some a)))))
                       (bbox (fst x)) < 0.2) (drop 1 top_author) = Some x \<and>
          snd (overlap_guard top_title top_author (Some t) (Some a)) = Some (fst x))))"
  by (auto simp: overlap_guard_def Let_def title_alternative_find author_alternative_find
      split: option.splits)

text \<open>C2 as stated fails at a runner-up whose IoU is exactly 0.2.  "DUNE" and
  "Frank Herbert" are chosen with an IoU of 14/15; the title runner-ups are
  "Frank Herbert" itself (IoU 1 with the author) and "Messiah" (IoU 0.2), and the title
  stays "DUNE".\<close>

theorem overlap_guard_skips_iou_one_fifth:
  "picked (initial_pick [dune_top, herbert_line, messiah_line] no_image) =
     Inr (shelf_titles, shelf_authors, Some dune_top, Some herbert_stripped) \<and>
   calculate_bbox_iou (bbox dune_top) (bbox herbert_stripped) = 14 / 15 \<and>
   calculate_bbox_iou (bbox herbert_stripped) (bbox herbert_stripped) = 1 \<and>
   calculate_bbox_iou (bbox messiah_line) (bbox herbert_stripped) = 0.2 \<and>
   overlap_guard shelf_titles shelf_authors (Some dune_top) (Some herbert_stripped) =
     (Some dune_top, Some herbert_stripped) \<and>
   chosen (rank_candidates [dune_top, herbert_line, messiah_line] no_image default_settings) =
     Inr (Some ''DUNE'', Some ''Frank Herbert'', [])"
  by code_simp




subsection \<open>Verification\<close>

text \<open>
  C4.  A result of \<open>verify_candidates\<close> that is matched carries a canonical record and a
  match confidence of at least 0.6, and so does every matched result of either provider.
\<close>

theorem matched_has_canonical:
  "(matched (fst (verify_candidates env lib t a settings)) \<longrightarrow>
      canonical (fst (verify_candidates env lib t a settings)) \<noteq> None \<and>
      (\<exists>m. match_confidence (fst (verify_candidates env lib t a settings)) = Some m \<and> 0.6 \<le> m)) \<and>
   (\<forall>r. fst (verify_google_books genv lib t a mq st) = Inr r \<longrightarrow> r_matched r \<longrightarrow>
      r_canonical r \<noteq> None \<and> (\<exists>m. r_match_confidence r = Some m \<and> 0.6 \<le> m)) \<and>
   (\<forall>r. fst (verify_open_library oenv lib t a mq st) = Inr r \<longrightarrow> r_matched r \<longrightarrow>
      r_canonical r \<noteq> None \<and> (\<exists>m. r_match_confidence r = Some m \<and> 0.6 \<le> m))"
proof (intro conjI allI impI)
  assume m: "matched (fst (verify_candidates env lib t a settings))"
  obtain v st' where v: "verify_candidates env lib t a settings = (v, st')"
    by (cases "verify_candidates env lib t a settings") auto
  have "canonical v \<noteq> None \<and> (\<exists>m. match_confidence v = Some m \<and> 0.6 \<le> m)"
  proof (cases "falsy_str t \<and> falsy_str a")
    case True
    with v m show ?thesis by (auto simp: verify_candidates_def)
  next
    case False
    with v have "verify_loop env lib t a (min (max_verify_queries settings) 6)
        (if verify_provider_order settings \<noteq> [] then verify_provider_order settings
         else [''google_books'', ''open_library'']) 0 net0 = (v, st')"
      by (simp add: verify_candidates_def Let_def)
    from verify_loop_matched [OF this] m v show ?thesis by simp
  qed
  with v show "canonical (fst (verify_candidates env lib t a settings)) \<noteq> None"
    and "\<exists>m. match_confidence (fst (verify_candidates env lib t a settings)) = Some m \<and> 0.6 \<le> m"
    by simp_all
next
  fix r assume "fst (verify_google_books genv lib t a mq st) = Inr r" "r_matched r"
  then show "r_canonical r \<noteq> None" "\<exists>m. r_match_confidence r = Some m \<and> 0.6 \<le> m"
    using verify_google_books_matched [of genv lib t a mq st r "snd (verify_google_books genv lib t a mq st)"]
    by (auto simp: prod_eq_iff)
next
  fix r assume "fst (verify_open_library oenv lib t a mq st) = Inr r" "r_matched r"
  then show "r_canonical r \<noteq> None" "\<exists>m. r_match_confidence r = Some m \<and> 0.6 \<le> m"
    using verify_open_library_matched [of oenv lib t a mq st r "snd (verify_open_library oenv lib t a mq st)"]
    by (auto simp: prod_eq_iff)
qed

text \<open>The theorem at catalogs that know "1984" by George Orwell.\<close>

theorem matched_has_canonical_witness:
  "matched (fst (verify_candidates orwell_catalogs None (Some ''1984'') (Some ''George Orwell'')
      default_settings)) \<and>
   canonical (fst (verify_candidates orwell_catalogs None (Some ''1984'') (Some ''George Orwell'')
      default_settings)) \<noteq> None \<and>
   (\<exists>m. match_confidence (fst (verify_candidates orwell_catalogs None (Some ''1984'')
      (Some ''George Orwell'') default_settings)) = Some m \<and> 0.6 \<le> m)"
proof -
  have m: "matched (fst (verify_candidates orwell_catalogs None (Some ''1984'')
      (Some ''George Orwell'') default_settings))"
    by code_simp
  from matched_has_canonical [of orwell_catalogs None "Some ''1984''" "Some ''George Orwell''"
      default_settings] m
  show ?thesis by blast
qed

text \<open>
  C3 on a network where every request times out, with a budget of one query.  A request
  that raises is not counted: Google Books sends its strict and its title-only request and
  reports no query made, the orchestrator's count stays 0, and Open Library does the
  same.  Four requests are sent against a budget of \<open>min 1 6 = 1\<close>.  (When no request
  and no provider raises, the bound holds: \<open>verify_within_budget_when_answered\<close>.)
\<close>

theorem verify_sends_more_than_budget:
  "requests (snd (verify_candidates dead_network None (Some ''Dune'') (Some ''Frank Herbert'')
      one_query_settings)) = 4 \<and>
   min (max_verify_queries one_query_settings) 6 = 1 \<and>
   \<not> matched (fst (verify_candidates dead_network None (Some ''Dune'') (Some ''Frank Herbert'')
      one_query_settings))"
  by code_simp

end
